theory Spec2Isabelle
  imports Main "HOL-Library.AList"
begin

section \<open>Values shared by the backend and the protocol\<close>

text \<open>
  Structured values (\<open>Record<string, unknown>\<close>, \<open>unknown\<close>, JSON schemas) are JSON
  trees. Numbers inside them are never computed on by the code modelled here, so they
  are kept as integers.
\<close>

datatype json =
    JNull
  | JBool bool
  | JNum int
  | JStr string
  | JArr "json list"
  | JObj "(string \<times> json) list"

text \<open>JavaScript truthiness of a JSON value, as \<open>x || y\<close> and \<open>if (x)\<close> read it.\<close>

fun truthy :: "json \<Rightarrow> bool" where
  "truthy JNull = False"
| "truthy (JBool b) = b"
| "truthy (JNum n) = (n \<noteq> 0)"
| "truthy (JStr s) = (s \<noteq> [])"
| "truthy (JArr xs) = True"
| "truthy (JObj kvs) = True"

text \<open>
  Decimal rendering of a non-negative integer, as a template literal
  \<open>`${n}`\<close> prints it.
\<close>

definition digit :: "nat \<Rightarrow> char" where
  "digit d = ''0123456789'' ! d"

fun show_nat :: "nat \<Rightarrow> string" where
  "show_nat n = (if n < 10 then [digit n] else show_nat (n div 10) @ [digit (n mod 10)])"

declare show_nat.simps [simp del]

subsection \<open>types/acp.ts\<close>

record AcpTool =
  tool_name :: string
  tool_description :: string
  tool_inputSchema :: json

text \<open>
  The five update payloads. The optional \<open>kind\<close> field is always written by the
  stream adapter and is a function of the constructor.
\<close>

datatype SessionUpdatePayload =
    AgentMessageChunk string nat string
  | AgentThoughtChunk string nat string
  | ToolCall string AcpTool json
  | SessionComplete string
  | SessionError string string

fun kind :: "SessionUpdatePayload \<Rightarrow> string" where
  "kind (AgentMessageChunk mid i c) = ''message''"
| "kind (AgentThoughtChunk tid i c) = ''thought''"
| "kind (ToolCall cid t inp) = ''tool_call''"
| "kind (SessionComplete r) = ''finish''"
| "kind (SessionError c m) = ''error''"

fun type_of :: "SessionUpdatePayload \<Rightarrow> string" where
  "type_of (AgentMessageChunk mid i c) = ''agent_message_chunk''"
| "type_of (AgentThoughtChunk tid i c) = ''agent_thought_chunk''"
| "type_of (ToolCall cid t inp) = ''tool_call''"
| "type_of (SessionComplete r) = ''session_complete''"
| "type_of (SessionError c m) = ''session_error''"

text \<open>
  \<open>{jsonrpc: '2.0', method: 'sessionUpdate', params: {sessionId, update}}\<close>: the two
  constant fields are left out.
\<close>

datatype SessionUpdateNotification = Notification string SessionUpdatePayload

fun update_of :: "SessionUpdateNotification \<Rightarrow> SessionUpdatePayload" where
  "update_of (Notification sid u) = u"

subsection \<open>types/antigravity.ts\<close>

record FunctionCall =
  fc_name :: string
  fc_args :: "json option"
  fc_id :: "string option"

record FunctionResponse =
  fr_name :: string
  fr_response :: json
  fr_id :: "string option"

text \<open>
  A part is an object told apart by which fields are present, so each field is
  optional: \<open>'thought' in part\<close> is \<open>part_thought p \<noteq> None\<close>.
\<close>

record Part =
  part_text :: "string option"
  part_thought :: "bool option"
  part_inlineData :: "(string \<times> string) option"
  part_functionCall :: "FunctionCall option"
  part_functionResponse :: "FunctionResponse option"

datatype Role = User | Model

record Content =
  role :: Role
  parts :: "Part list"

record GeminiCandidate =
  cand_content :: "Content option"
  cand_finishReason :: "string option"

record GeminiResponse =
  candidates :: "GeminiCandidate list"

record AntigravityStreamEvent =
  ev_response :: "GeminiResponse option"

section \<open>stream-adapter.ts\<close>

text \<open>
  The closure of \<open>createStreamAdapter\<close>: the two constants it captures and its three
  mutable variables. \<open>messageIndex\<close> is a JavaScript number that only ever counts the
  chunks of one turn; all events of a turn come out of one parsed response string, so
  the count stays far below \<open>2^53\<close> and the number is exact: a natural number.
  \<open>toolNameToAcpTool\<close> is the \<open>Map\<close> built from the entries \<open>[t.name, t]\<close> in order; a
  later entry replaces an earlier one of the same name.
\<close>

record StreamAdapter =
  sessionId :: string
  toolNameToAcpTool :: "(string \<times> AcpTool) list"
  messageIndex :: nat
  accumulatedText :: string
  currentToolCallId :: "string option"

definition createStreamAdapter :: "string \<Rightarrow> AcpTool list \<Rightarrow> StreamAdapter" where
  "createStreamAdapter sid tools =
     \<lparr> sessionId = sid,
       toolNameToAcpTool = map (\<lambda>t. (tool_name t, t)) tools,
       messageIndex = 0,
       accumulatedText = [],
       currentToolCallId = None \<rparr>"

definition createNotification :: "StreamAdapter \<Rightarrow> SessionUpdatePayload \<Rightarrow> SessionUpdateNotification" where
  "createNotification a u = Notification (sessionId a) u"

definition createMessageChunk :: "string \<Rightarrow> StreamAdapter \<Rightarrow> SessionUpdatePayload \<times> StreamAdapter" where
  "createMessageChunk t a =
     (AgentMessageChunk (''msg_'' @ sessionId a @ ''_'' @ show_nat (messageIndex a)) (messageIndex a) t,
      a\<lparr>messageIndex := messageIndex a + 1\<rparr>)"

definition createThoughtChunk :: "string \<Rightarrow> StreamAdapter \<Rightarrow> SessionUpdatePayload \<times> StreamAdapter" where
  "createThoughtChunk t a =
     (AgentThoughtChunk (''thought_'' @ sessionId a @ ''_'' @ show_nat (messageIndex a)) (messageIndex a) t,
      a\<lparr>messageIndex := messageIndex a + 1\<rparr>)"

text \<open>
  \<open>functionCall.id || `call_${sessionId}_${Date.now()}`\<close>: an absent or empty id is
  replaced. The clock reading \<open>now\<close> is an input of the model.
\<close>

definition emptySchema :: json where
  "emptySchema = JObj [(''type'', JStr ''object''), (''properties'', JObj [])]"

definition createToolCall :: "nat \<Rightarrow> FunctionCall \<Rightarrow> StreamAdapter \<Rightarrow> SessionUpdatePayload \<times> StreamAdapter" where
  "createToolCall now fc a =
     (let cid = (case fc_id fc of
                   Some i \<Rightarrow> if i \<noteq> [] then i else ''call_'' @ sessionId a @ ''_'' @ show_nat now
                 | None \<Rightarrow> ''call_'' @ sessionId a @ ''_'' @ show_nat now);
          acpTool = map_of (rev (toolNameToAcpTool a)) (fc_name fc)
      in (ToolCall cid
            (case acpTool of
               Some t \<Rightarrow> t
             | None \<Rightarrow> \<lparr> tool_name = fc_name fc, tool_description = [], tool_inputSchema = emptySchema \<rparr>)
            (case fc_args fc of
               Some args \<Rightarrow> if truthy args then args else JObj []
             | None \<Rightarrow> JObj []),
          a\<lparr>currentToolCallId := Some cid\<rparr>))"

definition createSessionComplete :: "string \<Rightarrow> SessionUpdatePayload" where
  "createSessionComplete reason = SessionComplete reason"

definition createSessionError :: "string \<Rightarrow> string \<Rightarrow> SessionUpdatePayload" where
  "createSessionError message code = SessionError code message"

text \<open>The body of the loop over the parts of a candidate: one part.\<close>

definition processPart :: "nat \<Rightarrow> Part \<Rightarrow> StreamAdapter \<Rightarrow> SessionUpdateNotification list \<times> StreamAdapter" where
  "processPart now p a =
     (if part_thought p = Some True then
        (let (u, a') = createThoughtChunk (case part_text p of Some t \<Rightarrow> t | None \<Rightarrow> []) a
         in ([createNotification a u], a'))
      else if (case part_text p of Some t \<Rightarrow> t \<noteq> [] | None \<Rightarrow> False) \<and> part_thought p = None then
        (let t = (case part_text p of Some t \<Rightarrow> t | None \<Rightarrow> []);
             a1 = a\<lparr>accumulatedText := accumulatedText a @ t\<rparr>;
             (u, a') = createMessageChunk t a1
         in ([createNotification a u], a'))
      else
        (case part_functionCall p of
           Some fc \<Rightarrow>
             (let (u, a') = createToolCall now fc a in ([createNotification a u], a'))
         | None \<Rightarrow> ([], a)))"

fun processParts :: "nat \<Rightarrow> Part list \<Rightarrow> StreamAdapter \<Rightarrow> SessionUpdateNotification list \<times> StreamAdapter" where
  "processParts now [] a = ([], a)"
| "processParts now (p # ps) a =
     (let (n1, a1) = processPart now p a;
          (n2, a2) = processParts now ps a1
      in (n1 @ n2, a2))"

text \<open>
  One candidate: \<open>if (!parts?.length) continue;\<close> skips a candidate without parts
  altogether, before its finish reason is looked at.
\<close>

definition processCandidate :: "nat \<Rightarrow> GeminiCandidate \<Rightarrow> StreamAdapter \<Rightarrow> SessionUpdateNotification list \<times> StreamAdapter" where
  "processCandidate now c a =
     (case cand_content c of
        None \<Rightarrow> ([], a)
      | Some content \<Rightarrow>
          if parts content = [] then ([], a)
          else
            (let (ns, a') = processParts now (parts content) a
             in (ns @
                   (if cand_finishReason c = Some ''STOP'' then
                      [createNotification a (createSessionComplete ''end_turn'')]
                    else if cand_finishReason c = Some ''TOOL_USE'' then
                      [createNotification a (createSessionComplete ''tool_use'')]
                    else if cand_finishReason c = Some ''SAFETY'' then
                      [createNotification a
                         (createSessionError ''Content blocked by safety filters'' ''SAFETY_BLOCK'')]
                    else if cand_finishReason c = Some ''MAX_TOKENS'' then
                      [createNotification a (createSessionComplete ''max_tokens'')]
                    else []),
                 a')))"

fun processCandidates :: "nat \<Rightarrow> GeminiCandidate list \<Rightarrow> StreamAdapter \<Rightarrow> SessionUpdateNotification list \<times> StreamAdapter" where
  "processCandidates now [] a = ([], a)"
| "processCandidates now (c # cs) a =
     (let (n1, a1) = processCandidate now c a;
          (n2, a2) = processCandidates now cs a1
      in (n1 @ n2, a2))"

definition processEvent :: "nat \<Rightarrow> AntigravityStreamEvent \<Rightarrow> StreamAdapter \<Rightarrow> SessionUpdateNotification list \<times> StreamAdapter" where
  "processEvent now event a =
     (case ev_response event of
        None \<Rightarrow> ([], a)
      | Some r \<Rightarrow> processCandidates now (candidates r) a)"

definition getAccumulatedText :: "StreamAdapter \<Rightarrow> string" where
  "getAccumulatedText a = accumulatedText a"

definition getCurrentToolCallId :: "StreamAdapter \<Rightarrow> string option" where
  "getCurrentToolCallId a = currentToolCallId a"

definition reset :: "StreamAdapter \<Rightarrow> StreamAdapter" where
  "reset a = a\<lparr>accumulatedText := [], currentToolCallId := None, messageIndex := 0\<rparr>"

text \<open>
  One adapter instance fed the events of one turn, each with the clock reading at
  the time it is processed, as the \<open>for await\<close> loop of a handler does.
\<close>

fun processEvents :: "(nat \<times> AntigravityStreamEvent) list \<Rightarrow> StreamAdapter \<Rightarrow> SessionUpdateNotification list \<times> StreamAdapter" where
  "processEvents [] a = ([], a)"
| "processEvents ((now, e) # es) a =
     (let (n1, a1) = processEvent now e a;
          (n2, a2) = processEvents es a1
      in (n1 @ n2, a2))"

text \<open>The \<open>index\<close> fields of the message and thought chunks of a list of notifications.\<close>

fun chunkIndex :: "SessionUpdateNotification \<Rightarrow> nat list" where
  "chunkIndex (Notification sid (AgentMessageChunk mid i c)) = [i]"
| "chunkIndex (Notification sid (AgentThoughtChunk tid i c)) = [i]"
| "chunkIndex (Notification sid u) = []"

definition chunkIndices :: "SessionUpdateNotification list \<Rightarrow> nat list" where
  "chunkIndices ns = concat (map chunkIndex ns)"

section \<open>session.ts\<close>

text \<open>
  \<open>SessionConfig\<close>: only the fields the session manager reads (\<open>temperature\<close>,
  \<open>maxTokens\<close> and \<open>thinkingBudget\<close> are never read).
\<close>

record SessionConfig =
  cfg_model :: "string option"
  cfg_systemPrompt :: "string option"
  cfg_systemInstruction :: "string option"
  cfg_tools :: "AcpTool list option"

text \<open>
  An \<open>AbortController\<close> is an object with identity: here a number, handed out by the
  server when it runs \<open>new AbortController()\<close>. Calling \<open>abort()\<close> on it is recorded in
  the set \<open>aborted\<close> kept beside the sessions.
\<close>

record SessionState =
  ss_id :: string
  ss_model :: string
  ss_systemInstruction :: "string option"
  ss_tools :: "AcpTool list"
  ss_contents :: "Content list"
  ss_createdAt :: nat
  ss_abortController :: "nat option"

text \<open>
  The closure of \<open>createSessionManager\<close>. \<open>sessions\<close> is the \<open>Map\<close>, in insertion order:
  \<open>AList.update\<close> writes a key in place or appends it, as \<open>Map.set\<close> does.
\<close>

record SessionManager =
  sessions :: "(string \<times> SessionState) list"
  defaultModel :: string
  aborted :: "nat set"

definition DEFAULT_MODEL :: string where
  "DEFAULT_MODEL = ''gemini-2.0-flash''"

text \<open>\<open>a || b\<close> on an optional string: an absent or empty \<open>a\<close> gives \<open>b\<close>.\<close>

definition orElse :: "string option \<Rightarrow> string \<Rightarrow> string" where
  "orElse a b = (case a of Some x \<Rightarrow> if x \<noteq> [] then x else b | None \<Rightarrow> b)"

definition orElseOpt :: "string option \<Rightarrow> string option \<Rightarrow> string option" where
  "orElseOpt a b = (case a of Some x \<Rightarrow> if x \<noteq> [] then Some x else b | None \<Rightarrow> b)"

definition createSessionManager :: "string option \<Rightarrow> SessionManager" where
  "createSessionManager optDefaultModel =
     \<lparr> sessions = [], defaultModel = orElse optDefaultModel DEFAULT_MODEL, aborted = {} \<rparr>"

text \<open>
  \<open>createSession\<close>: \<open>now\<close> is the reading of \<open>Date.now()\<close> and \<open>rnd\<close> the six base-36
  characters cut from \<open>Math.random()\<close>. \<open>createdAt\<close> is a second reading of the clock
  that nothing reads; it is given the same value.
\<close>

definition newSessionId :: "nat \<Rightarrow> string \<Rightarrow> string" where
  "newSessionId now rnd = ''session_'' @ show_nat now @ ''_'' @ rnd"

definition createSession :: "nat \<Rightarrow> string \<Rightarrow> SessionConfig option \<Rightarrow> SessionManager \<Rightarrow> SessionState \<times> SessionManager" where
  "createSession now rnd config m =
     (let sid = newSessionId now rnd;
          session =
            \<lparr> ss_id = sid,
              ss_model = (case config of Some c \<Rightarrow> orElse (cfg_model c) (defaultModel m) | None \<Rightarrow> defaultModel m),
              ss_systemInstruction =
                (case config of Some c \<Rightarrow> orElseOpt (cfg_systemInstruction c) (cfg_systemPrompt c) | None \<Rightarrow> None),
              ss_tools = (case config of Some c \<Rightarrow> (case cfg_tools c of Some ts \<Rightarrow> ts | None \<Rightarrow> []) | None \<Rightarrow> []),
              ss_contents = [],
              ss_createdAt = now,
              ss_abortController = None \<rparr>
      in (session, m\<lparr>sessions := AList.update sid session (sessions m)\<rparr>))"

definition getSession :: "SessionManager \<Rightarrow> string \<Rightarrow> SessionState option" where
  "getSession m sid = map_of (sessions m) sid"

text \<open>A write to a field of the session object stored under \<open>sid\<close>.\<close>

definition putSession :: "string \<Rightarrow> SessionState \<Rightarrow> SessionManager \<Rightarrow> SessionManager" where
  "putSession sid s m = m\<lparr>sessions := AList.update sid s (sessions m)\<rparr>"

definition deleteSession :: "string \<Rightarrow> SessionManager \<Rightarrow> bool \<times> SessionManager" where
  "deleteSession sid m =
     (let m1 = (case getSession m sid of
                  Some s \<Rightarrow> (case ss_abortController s of
                                Some h \<Rightarrow> m\<lparr>aborted := insert h (aborted m)\<rparr>
                              | None \<Rightarrow> m)
                | None \<Rightarrow> m)
      in (getSession m sid \<noteq> None, m1\<lparr>sessions := AList.delete sid (sessions m1)\<rparr>))"

definition addUserMessage :: "string \<Rightarrow> string \<Rightarrow> SessionManager \<Rightarrow> SessionManager" where
  "addUserMessage sid t m =
     (case getSession m sid of
        None \<Rightarrow> m
      | Some s \<Rightarrow>
          putSession sid
            (s\<lparr>ss_contents := ss_contents s @
                 [\<lparr> role = User,
                    parts = [\<lparr> part_text = Some t, part_thought = None, part_inlineData = None,
                               part_functionCall = None, part_functionResponse = None \<rparr>] \<rparr>]\<rparr>) m)"

text \<open>
  \<open>parts.find(p => 'text' in p && !('thought' in p))\<close> followed by
  \<open>textPart.text += text\<close>: the first such part gets the text appended; \<open>None\<close> when
  there is no such part.
\<close>

fun appendToTextPart :: "string \<Rightarrow> Part list \<Rightarrow> Part list option" where
  "appendToTextPart t [] = None"
| "appendToTextPart t (p # ps) =
     (case part_text p of
        Some old \<Rightarrow>
          if part_thought p = None then Some (p\<lparr>part_text := Some (old @ t)\<rparr> # ps)
          else map_option ((#) p) (appendToTextPart t ps)
      | None \<Rightarrow> map_option ((#) p) (appendToTextPart t ps))"

definition modelText :: "string \<Rightarrow> Content" where
  "modelText t =
     \<lparr> role = Model,
       parts = [\<lparr> part_text = Some t, part_thought = None, part_inlineData = None,
                  part_functionCall = None, part_functionResponse = None \<rparr>] \<rparr>"

definition addAssistantMessage :: "string \<Rightarrow> string \<Rightarrow> SessionManager \<Rightarrow> SessionManager" where
  "addAssistantMessage sid t m =
     (case getSession m sid of
        None \<Rightarrow> m
      | Some s \<Rightarrow>
          (let cs = ss_contents s in
           if cs \<noteq> [] \<and> role (last cs) = Model then
             (case appendToTextPart t (parts (last cs)) of
                Some ps \<Rightarrow> putSession sid (s\<lparr>ss_contents := butlast cs @ [(last cs)\<lparr>parts := ps\<rparr>]\<rparr>) m
              | None \<Rightarrow> putSession sid (s\<lparr>ss_contents := cs @ [modelText t]\<rparr>) m)
           else putSession sid (s\<lparr>ss_contents := cs @ [modelText t]\<rparr>) m))"

definition callPart :: "FunctionCall \<Rightarrow> Part" where
  "callPart fc =
     \<lparr> part_text = None, part_thought = None, part_inlineData = None,
       part_functionCall = Some fc, part_functionResponse = None \<rparr>"

definition addToolCall :: "string \<Rightarrow> FunctionCall \<Rightarrow> SessionManager \<Rightarrow> SessionManager" where
  "addToolCall sid fc m =
     (case getSession m sid of
        None \<Rightarrow> m
      | Some s \<Rightarrow>
          (let cs = ss_contents s in
           if cs \<noteq> [] \<and> role (last cs) = Model then
             putSession sid
               (s\<lparr>ss_contents := butlast cs @ [(last cs)\<lparr>parts := parts (last cs) @ [callPart fc]\<rparr>]\<rparr>) m
           else
             putSession sid (s\<lparr>ss_contents := cs @ [\<lparr> role = Model, parts = [callPart fc] \<rparr>]\<rparr>) m))"

text \<open>
  \<open>typeof result === 'string' ? { output: result } : result\<close>: the result is whatever
  JSON value the client sent.
\<close>

definition addToolResult :: "string \<Rightarrow> string \<Rightarrow> string \<Rightarrow> json \<Rightarrow> SessionManager \<Rightarrow> SessionManager" where
  "addToolResult sid callId name result m =
     (case getSession m sid of
        None \<Rightarrow> m
      | Some s \<Rightarrow>
          (let functionResponse =
                 \<lparr> fr_name = name,
                   fr_response = (case result of JStr str \<Rightarrow> JObj [(''output'', JStr str)] | _ \<Rightarrow> result),
                   fr_id = Some callId \<rparr>;
               toolResultContent =
                 \<lparr> role = User,
                   parts = [\<lparr> part_text = None, part_thought = None, part_inlineData = None,
                              part_functionCall = None, part_functionResponse = Some functionResponse \<rparr>] \<rparr>
           in putSession sid (s\<lparr>ss_contents := ss_contents s @ [toolResultContent]\<rparr>) m))"

definition setAbortController :: "string \<Rightarrow> nat option \<Rightarrow> SessionManager \<Rightarrow> SessionManager" where
  "setAbortController sid controller m =
     (case getSession m sid of
        None \<Rightarrow> m
      | Some s \<Rightarrow> putSession sid (s\<lparr>ss_abortController := controller\<rparr>) m)"

definition cancelSession :: "string \<Rightarrow> SessionManager \<Rightarrow> bool \<times> SessionManager" where
  "cancelSession sid m =
     (case getSession m sid of
        None \<Rightarrow> (False, m)
      | Some s \<Rightarrow>
          (case ss_abortController s of
             None \<Rightarrow> (False, m)
           | Some h \<Rightarrow>
               (True, putSession sid (s\<lparr>ss_abortController := None\<rparr>) (m\<lparr>aborted := insert h (aborted m)\<rparr>))))"

definition getContents :: "SessionManager \<Rightarrow> string \<Rightarrow> Content list" where
  "getContents m sid = (case getSession m sid of Some s \<Rightarrow> ss_contents s | None \<Rightarrow> [])"

definition clear :: "SessionManager \<Rightarrow> SessionManager" where
  "clear m =
     m\<lparr> aborted := aborted m \<union> set (List.map_filter (\<lambda>kv. ss_abortController (snd kv)) (sessions m)),
        sessions := [] \<rparr>"

section \<open>tools.ts\<close>

text \<open>The two shapes every schema of the catalogue is written with.\<close>

definition propSchema :: "string \<Rightarrow> string \<Rightarrow> json" where
  "propSchema ty description = JObj [(''type'', JStr ty), (''description'', JStr description)]"

definition objectSchema :: "(string \<times> json) list \<Rightarrow> string list \<Rightarrow> json" where
  "objectSchema properties required =
     JObj [(''type'', JStr ''object''), (''properties'', JObj properties),
           (''required'', JArr (map JStr required))]"

definition ACP_TOOLS :: "AcpTool list" where
  "ACP_TOOLS =
     [ \<lparr> tool_name = ''read_file'',
         tool_description = ''Read the contents of a file at the specified path'',
         tool_inputSchema = objectSchema
           [ (''path'', propSchema ''string'' ''The absolute or relative path to the file to read''),
             (''offset'', propSchema ''number'' ''Line number to start reading from (0-based)''),
             (''limit'', propSchema ''number'' ''Maximum number of lines to read'') ]
           [''path''] \<rparr>,
       \<lparr> tool_name = ''write_file'',
         tool_description = ''Write content to a file at the specified path, creating it if it does not exist'',
         tool_inputSchema = objectSchema
           [ (''path'', propSchema ''string'' ''The absolute or relative path to the file to write''),
             (''content'', propSchema ''string'' ''The content to write to the file'') ]
           [''path'', ''content''] \<rparr>,
       \<lparr> tool_name = ''edit_file'',
         tool_description = ''Make targeted edits to a file by replacing specific text'',
         tool_inputSchema = objectSchema
           [ (''path'', propSchema ''string'' ''The path to the file to edit''),
             (''old_string'', propSchema ''string'' ''The exact text to find and replace''),
             (''new_string'', propSchema ''string'' ''The text to replace with'') ]
           [''path'', ''old_string'', ''new_string''] \<rparr>,
       \<lparr> tool_name = ''list_directory'',
         tool_description = ''List files and directories at the specified path'',
         tool_inputSchema = objectSchema
           [ (''path'', propSchema ''string'' ''The path to the directory to list''),
             (''recursive'', propSchema ''boolean'' ''Whether to list recursively'') ]
           [''path''] \<rparr>,
       \<lparr> tool_name = ''search_files'',
         tool_description = ''Search for files matching a pattern'',
         tool_inputSchema = objectSchema
           [ (''pattern'', propSchema ''string'' ''Glob pattern to match files''),
             (''path'', propSchema ''string'' ''Directory to search in'') ]
           [''pattern''] \<rparr>,
       \<lparr> tool_name = ''search_content'',
         tool_description = ''Search for content within files using regex'',
         tool_inputSchema = objectSchema
           [ (''pattern'', propSchema ''string'' ''Regular expression pattern to search for''),
             (''path'', propSchema ''string'' ''Directory to search in''),
             (''include'', propSchema ''string'' (''File pattern to include (e.g., '' @ [CHR 0x22] @ ''*.ts'' @ [CHR 0x22] @ '')'')) ]
           [''pattern''] \<rparr>,
       \<lparr> tool_name = ''execute_command'',
         tool_description = ''Execute a shell command'',
         tool_inputSchema = objectSchema
           [ (''command'', propSchema ''string'' ''The command to execute''),
             (''cwd'', propSchema ''string'' ''Working directory for the command''),
             (''timeout'', propSchema ''number'' ''Timeout in milliseconds'') ]
           [''command''] \<rparr> ]"

record FunctionDeclaration =
  fd_name :: string
  fd_description :: string
  fd_parameters :: json

definition acpToolsToFunctionDeclarations :: "AcpTool list \<Rightarrow> FunctionDeclaration list" where
  "acpToolsToFunctionDeclarations ts =
     map (\<lambda>t. \<lparr> fd_name = tool_name t, fd_description = tool_description t,
                 fd_parameters = tool_inputSchema t \<rparr>) ts"

section \<open>acp-server.ts\<close>

subsection \<open>Requests, responses and the outside world\<close>

record AuthConfig =
  accessToken :: string
  refreshToken :: string
  projectId :: string

record AcpServerOptions =
  opt_auth :: "AuthConfig option"
  opt_defaultModel :: "string option"
  opt_tools :: "AcpTool list option"

datatype MessageRole = RoleUser | RoleAssistant

text \<open>\<open>content: string | AcpContent[]\<close>: a string, or the array as the JSON it arrived as.\<close>

record AcpMessage =
  msg_role :: MessageRole
  msg_content :: "string + json"

datatype RpcId = IdStr string | IdNum int | IdNull

text \<open>
  A request is a method with parameters of the shape its handler reads; \<open>Other\<close> is
  any method name the dispatcher does not know. Of \<open>ToolResultParams\<close> the handler
  reads \<open>sessionId\<close>, \<open>callId\<close>, \<open>tool.name\<close> and \<open>result\<close>.
\<close>

datatype Request =
    Initialize
  | NewSession "SessionConfig option"
  | Prompt string "AcpMessage list"
  | ToolResult string string string json
  | Cancel string
  | Shutdown
  | Other string

datatype ResultBody =
    InitializeResult
  | NewSessionResult string
  | PromptResult "(string \<times> string) list option"
  | CancelResult bool
  | ShutdownResult

text \<open>
  What the server writes to standard output, one value per line: a response with a
  result, a response with an error (code, message, optional data), or a notification.
\<close>

datatype Outbound =
    Response RpcId ResultBody
  | ErrorResponse RpcId int string "json option"
  | Notify SessionUpdateNotification

text \<open>
  The argument of \<open>streamGenerateContent\<close>, and what consuming the stream it returns
  gives: the events that arrive, each paired with the reading of the clock while it
  is processed, and how the stream ends: exhausted, an error named \<open>AbortError\<close>, or
  any other error with its message.
\<close>

record StreamGenerateContentOptions =
  sg_model :: string
  sg_contents :: "Content list"
  sg_systemInstruction :: "string option"
  sg_tools :: "FunctionDeclaration list option"
  sg_signal :: nat

datatype StreamEnd = StreamDone | AbortError | StreamFailure string

record StreamResult =
  sr_events :: "(nat \<times> AntigravityStreamEvent) list"
  sr_end :: StreamEnd

text \<open>
  What a handler takes from outside the server while it runs: the clock and the
  random suffix of a new session id, the outcome of \<open>loadAuthFromConfig\<close> (\<open>Inl\<close>: it
  throws), the built-in \<open>JSON.stringify\<close>, and the backend.
\<close>

record Env =
  env_now :: nat
  env_random :: string
  env_loadAuth :: "string + AuthConfig option"
  env_stringify :: "json \<Rightarrow> string"
  env_backend :: "StreamGenerateContentOptions \<Rightarrow> StreamResult"

text \<open>
  The closure of \<open>createAcpServer\<close>. \<open>srv_controllers\<close> counts the \<open>AbortController\<close>
  objects created so far, which names the next one; \<open>srv_exited\<close> records
  \<open>process.exit(0)\<close>. The client is the credentials it was created from.
\<close>

record AcpServer =
  srv_options :: AcpServerOptions
  srv_sessionManager :: SessionManager
  srv_tools :: "AcpTool list"
  srv_antigravityClient :: "AuthConfig option"
  srv_initialized :: bool
  srv_controllers :: nat
  srv_exited :: bool

definition createAcpServer :: "AcpServerOptions \<Rightarrow> AcpServer" where
  "createAcpServer options =
     \<lparr> srv_options = options,
       srv_sessionManager = createSessionManager (opt_defaultModel options),
       srv_tools = (case opt_tools options of Some ts \<Rightarrow> ts | None \<Rightarrow> ACP_TOOLS),
       srv_antigravityClient = None,
       srv_initialized = False,
       srv_controllers = 0,
       srv_exited = False \<rparr>"

definition sendError :: "RpcId \<Rightarrow> int \<Rightarrow> string \<Rightarrow> Outbound" where
  "sendError rid code message = ErrorResponse rid code message None"

subsection \<open>Handlers\<close>

text \<open>
  \<open>handleInitialize\<close>: \<open>options.auth || (await loadAuthFromConfig())\<close>. When loading
  throws, the handler is left before anything is written or sent (\<open>Inl\<close>). Without
  credentials the client variable keeps the value it had.
\<close>

definition handleInitialize :: "Env \<Rightarrow> RpcId \<Rightarrow> AcpServer \<Rightarrow> string + (Outbound list \<times> AcpServer)" where
  "handleInitialize env rid s =
     (case opt_auth (srv_options s) of
        Some auth \<Rightarrow>
          Inr ([Response rid InitializeResult],
               s\<lparr>srv_antigravityClient := Some auth, srv_initialized := True\<rparr>)
      | None \<Rightarrow>
          (case env_loadAuth env of
             Inl err \<Rightarrow> Inl err
           | Inr None \<Rightarrow> Inr ([Response rid InitializeResult], s\<lparr>srv_initialized := True\<rparr>)
           | Inr (Some auth) \<Rightarrow>
               Inr ([Response rid InitializeResult],
                    s\<lparr>srv_antigravityClient := Some auth, srv_initialized := True\<rparr>)))"

definition handleNewSession :: "Env \<Rightarrow> RpcId \<Rightarrow> SessionConfig option \<Rightarrow> AcpServer \<Rightarrow> Outbound list \<times> AcpServer" where
  "handleNewSession env rid config s =
     (if \<not> srv_initialized s then ([sendError rid (- 32002) ''Server not initialized''], s)
      else if srv_antigravityClient s = None then
        ([ErrorResponse rid (- 32001) ''Authentication required''
            (Some (JObj [(''type'', JStr ''authRequired'')]))], s)
      else
        (let (session, m) = createSession (env_now env) (env_random env) config (srv_sessionManager s)
         in ([Response rid (NewSessionResult (ss_id session))], s\<lparr>srv_sessionManager := m\<rparr>)))"

text \<open>\<open>Array.prototype.join\<close> with a separator.\<close>

fun joinWith :: "string \<Rightarrow> string list \<Rightarrow> string" where
  "joinWith sep [] = []"
| "joinWith sep [x] = x"
| "joinWith sep (x # y # zs) = x @ sep @ joinWith sep (y # zs)"

definition userTextOf :: "(json \<Rightarrow> string) \<Rightarrow> AcpMessage list \<Rightarrow> string" where
  "userTextOf stringify messages =
     joinWith [CHR 0x0A]
       (map (\<lambda>m. case msg_content m of Inl str \<Rightarrow> str | Inr c \<Rightarrow> stringify c)
          (filter (\<lambda>m. msg_role m = RoleUser) messages))"

text \<open>
  The body of the loop over the notifications of one event, after the notification
  is sent. \<open>adapter\<close> is the adapter as \<open>processEvent\<close> left it for the whole event:
  \<open>getAccumulatedText\<close> is read then.
\<close>

definition recordUpdate :: "string \<Rightarrow> StreamAdapter \<Rightarrow> SessionUpdateNotification \<Rightarrow>
    (string \<times> string) list \<times> SessionManager \<Rightarrow> (string \<times> string) list \<times> SessionManager" where
  "recordUpdate sid adapter n pm =
     (let (pendingToolCalls, m) = pm;
          (pending1, m1) =
            (case update_of n of
               ToolCall callId tool input \<Rightarrow>
                 (pendingToolCalls @ [(callId, tool_name tool)],
                  addToolCall sid
                    \<lparr> fc_name = tool_name tool,
                      fc_args = Some (if truthy input then input else JObj []),
                      fc_id = Some callId \<rparr> m)
             | _ \<Rightarrow> (pendingToolCalls, m))
      in if kind (update_of n) = ''finish'' then
           (let fullText = getAccumulatedText adapter
            in if fullText \<noteq> [] then (pending1, addAssistantMessage sid fullText m1)
               else (pending1, m1))
         else (pending1, m1))"

fun recordUpdates :: "string \<Rightarrow> StreamAdapter \<Rightarrow> SessionUpdateNotification list \<Rightarrow>
    (string \<times> string) list \<times> SessionManager \<Rightarrow> (string \<times> string) list \<times> SessionManager" where
  "recordUpdates sid adapter [] pm = pm"
| "recordUpdates sid adapter (n # ns) pm = recordUpdates sid adapter ns (recordUpdate sid adapter n pm)"

text \<open>
  The \<open>for await\<close> loop: every event goes through the adapter, its notifications are
  sent in order and recorded. The result is what was sent, the adapter, the pending
  calls and the sessions.
\<close>

fun drainStream :: "string \<Rightarrow> (nat \<times> AntigravityStreamEvent) list \<Rightarrow> StreamAdapter \<Rightarrow>
    (string \<times> string) list \<times> SessionManager \<Rightarrow>
    Outbound list \<times> StreamAdapter \<times> (string \<times> string) list \<times> SessionManager" where
  "drainStream sid [] adapter pm = ([], adapter, pm)"
| "drainStream sid ((now, event) # events) adapter pm =
     (let (notifications, adapter1) = processEvent now event adapter;
          pm1 = recordUpdates sid adapter1 notifications pm;
          (sent, rest) = drainStream sid events adapter1 pm1
      in (map Notify notifications @ sent, rest))"

text \<open>
  The part the two turn handlers share word for word: from \<open>new AbortController()\<close>
  to the \<open>finally\<close> block. \<open>session\<close> is the object looked up at the start of the
  handler; only fields that never change are read from it.
\<close>

definition runTurn :: "Env \<Rightarrow> RpcId \<Rightarrow> string \<Rightarrow> SessionState \<Rightarrow> AcpServer \<Rightarrow> Outbound list \<times> AcpServer" where
  "runTurn env rid sid session s =
     (let abortController = srv_controllers s;
          m1 = setAbortController sid (Some abortController) (srv_sessionManager s);
          functionDeclarations =
            acpToolsToFunctionDeclarations
              (if length (ss_tools session) > 0 then ss_tools session else srv_tools s);
          stream = env_backend env
            \<lparr> sg_model = ss_model session,
              sg_contents = getContents m1 sid,
              sg_systemInstruction =
                (case ss_systemInstruction session of
                   Some t \<Rightarrow> if t \<noteq> [] then Some t else None
                 | None \<Rightarrow> None),
              sg_tools = (if length functionDeclarations > 0 then Some functionDeclarations else None),
              sg_signal = abortController \<rparr>;
          adapter = createStreamAdapter sid [];
          (sent, adapter1, pendingToolCalls, m2) = drainStream sid (sr_events stream) adapter ([], m1);
          final =
            (case sr_end stream of
               StreamDone \<Rightarrow>
                 Response rid (PromptResult (if length pendingToolCalls > 0 then Some pendingToolCalls else None))
             | AbortError \<Rightarrow> sendError rid (- 32001) ''Request cancelled''
             | StreamFailure message \<Rightarrow>
                 sendError rid (- 32000) (if message \<noteq> [] then message else ''Unknown error''));
          m3 = setAbortController sid None m2
      in (sent @ [final], s\<lparr>srv_sessionManager := m3, srv_controllers := abortController + 1\<rparr>))"

definition handlePrompt :: "Env \<Rightarrow> RpcId \<Rightarrow> string \<Rightarrow> AcpMessage list \<Rightarrow> AcpServer \<Rightarrow> Outbound list \<times> AcpServer" where
  "handlePrompt env rid sid messages s =
     (if \<not> srv_initialized s \<or> srv_antigravityClient s = None then
        ([sendError rid (- 32002) ''Server not initialized''], s)
      else
        (case getSession (srv_sessionManager s) sid of
           None \<Rightarrow> ([sendError rid (- 32001) (''Session not found: '' @ sid)], s)
         | Some session \<Rightarrow>
             (let userText = userTextOf (env_stringify env) messages;
                  m = (if userText \<noteq> [] then addUserMessage sid userText (srv_sessionManager s)
                       else srv_sessionManager s)
              in runTurn env rid sid session (s\<lparr>srv_sessionManager := m\<rparr>))))"

definition handleToolResult :: "Env \<Rightarrow> RpcId \<Rightarrow> string \<Rightarrow> string \<Rightarrow> string \<Rightarrow> json \<Rightarrow> AcpServer \<Rightarrow> Outbound list \<times> AcpServer" where
  "handleToolResult env rid sid callId toolName result s =
     (if \<not> srv_initialized s \<or> srv_antigravityClient s = None then
        ([sendError rid (- 32002) ''Server not initialized''], s)
      else
        (case getSession (srv_sessionManager s) sid of
           None \<Rightarrow> ([sendError rid (- 32001) (''Session not found: '' @ sid)], s)
         | Some session \<Rightarrow>
             runTurn env rid sid session
               (s\<lparr>srv_sessionManager := addToolResult sid callId toolName result (srv_sessionManager s)\<rparr>)))"

definition handleCancel :: "RpcId \<Rightarrow> string \<Rightarrow> AcpServer \<Rightarrow> Outbound list \<times> AcpServer" where
  "handleCancel rid sid s =
     (let (cancelled, m) = cancelSession sid (srv_sessionManager s)
      in ([Response rid (CancelResult cancelled)], s\<lparr>srv_sessionManager := m\<rparr>))"

definition handleShutdown :: "RpcId \<Rightarrow> AcpServer \<Rightarrow> Outbound list \<times> AcpServer" where
  "handleShutdown rid s =
     ([Response rid ShutdownResult],
      s\<lparr>srv_sessionManager := clear (srv_sessionManager s), srv_exited := True\<rparr>)"

definition handleRequest :: "Env \<Rightarrow> RpcId \<Rightarrow> Request \<Rightarrow> AcpServer \<Rightarrow> string + (Outbound list \<times> AcpServer)" where
  "handleRequest env rid request s =
     (case request of
        Initialize \<Rightarrow> handleInitialize env rid s
      | NewSession config \<Rightarrow> Inr (handleNewSession env rid config s)
      | Prompt sid messages \<Rightarrow> Inr (handlePrompt env rid sid messages s)
      | ToolResult sid callId toolName result \<Rightarrow> Inr (handleToolResult env rid sid callId toolName result s)
      | Cancel sid \<Rightarrow> Inr (handleCancel rid sid s)
      | Shutdown \<Rightarrow> Inr (handleShutdown rid s)
      | Other method \<Rightarrow> Inr ([sendError rid (- 32601) (''Method not found: '' @ method)], s))"

text \<open>
  One input line, handled to its end before the next: a blank line is skipped, a
  line that does not parse or a handler that throws is answered with the parse
  error. After \<open>process.exit\<close> nothing runs.
\<close>

datatype Line = Blank | Malformed | Parsed RpcId Request

definition onLine :: "Env \<Rightarrow> Line \<Rightarrow> AcpServer \<Rightarrow> Outbound list \<times> AcpServer" where
  "onLine env line s =
     (if srv_exited s then ([], s)
      else
        (case line of
           Blank \<Rightarrow> ([], s)
         | Malformed \<Rightarrow> ([sendError IdNull (- 32700) ''Parse error''], s)
         | Parsed rid request \<Rightarrow>
             (case handleRequest env rid request s of
                Inl err \<Rightarrow> ([sendError IdNull (- 32700) ''Parse error''], s)
              | Inr r \<Rightarrow> r)))"

section \<open>Vocabulary of the properties\<close>

text \<open>Parts and events as the backend sends them, for stating concrete runs.\<close>

definition textPart :: "string \<Rightarrow> Part" where
  "textPart t =
     \<lparr> part_text = Some t, part_thought = None, part_inlineData = None,
       part_functionCall = None, part_functionResponse = None \<rparr>"


definition candidateEvent :: "Part list \<Rightarrow> string option \<Rightarrow> AntigravityStreamEvent" where
  "candidateEvent ps finish =
     \<lparr> ev_response = Some \<lparr> candidates =
         [\<lparr> cand_content = Some \<lparr> role = Model, parts = ps \<rparr>, cand_finishReason = finish \<rparr>] \<rparr> \<rparr>"

text \<open>The \<open>thoughtId\<close> fields of the thought chunks of a list of notifications.\<close>

fun thoughtId :: "SessionUpdateNotification \<Rightarrow> string list" where
  "thoughtId (Notification sid (AgentThoughtChunk tid i c)) = [tid]"
| "thoughtId (Notification sid u) = []"

definition thoughtIds :: "SessionUpdateNotification list \<Rightarrow> string list" where
  "thoughtIds ns = concat (map thoughtId ns)"

text \<open>A terminal update: \<open>session_complete\<close> or \<open>session_error\<close>.\<close>

definition terminal :: "SessionUpdateNotification \<Rightarrow> bool" where
  "terminal n = (kind (update_of n) = ''finish'' \<or> kind (update_of n) = ''error'')"

text \<open>The test of \<open>addAssistantMessage\<close> on a part: \<open>'text' in p && !('thought' in p)\<close>.\<close>

definition isTextPart :: "Part \<Rightarrow> bool" where
  "isTextPart p = (part_text p \<noteq> None \<and> part_thought p = None)"

text \<open>A store with one session, and the same with a live handle.\<close>

definition oneSession :: SessionManager where
  "oneSession = snd (createSession 0 ''abc123'' None (createSessionManager None))"

definition sid0 :: string where
  "sid0 = ''session_0_abc123''"

definition session0 :: SessionState where
  "session0 =
     \<lparr> ss_id = sid0, ss_model = DEFAULT_MODEL, ss_systemInstruction = None, ss_tools = [],
       ss_contents = [], ss_createdAt = 0, ss_abortController = None \<rparr>"

text \<open>A tool call as the handlers record it.\<close>

definition readCall :: FunctionCall where
  "readCall = \<lparr> fc_name = ''read_file'', fc_args = Some (JObj [(''path'', JStr ''a.txt'')]), fc_id = Some ''c1'' \<rparr>"

text \<open>
  A server started with credentials, the same after \<open>initialize\<close>, and after one
  \<open>newSession\<close>; a backend that answers every request with a given stream.
\<close>

definition auth0 :: AuthConfig where
  "auth0 = \<lparr> accessToken = ''token'', refreshToken = ''refresh'', projectId = ''project'' \<rparr>"

definition options0 :: AcpServerOptions where
  "options0 = \<lparr> opt_auth = Some auth0, opt_defaultModel = None, opt_tools = None \<rparr>"

definition streamOf :: "(nat \<times> AntigravityStreamEvent) list \<Rightarrow> StreamEnd \<Rightarrow> StreamGenerateContentOptions \<Rightarrow> StreamResult" where
  "streamOf events ending opts = \<lparr> sr_events = events, sr_end = ending \<rparr>"

definition env0 :: Env where
  "env0 =
     \<lparr> env_now = 0, env_random = ''abc123'', env_loadAuth = Inr None,
       env_stringify = (\<lambda>j. []), env_backend = streamOf [] StreamDone \<rparr>"

definition initializedServer :: AcpServer where
  "initializedServer = snd (onLine env0 (Parsed (IdNum 1) Initialize) (createAcpServer options0))"

definition readyServer :: AcpServer where
  "readyServer = snd (onLine env0 (Parsed (IdNum 2) (NewSession None)) initializedServer)"

definition userMessage :: "string \<Rightarrow> AcpMessage" where
  "userMessage t = \<lparr> msg_role = RoleUser, msg_content = Inl t \<rparr>"

definition helloStream :: "nat \<Rightarrow> StreamGenerateContentOptions \<Rightarrow> StreamResult" where
  "helloStream now = streamOf [(now, candidateEvent [textPart ''hello''] (Some ''STOP''))] StreamDone"

definition toolStream :: "nat \<Rightarrow> StreamGenerateContentOptions \<Rightarrow> StreamResult" where
  "toolStream now = streamOf [(now, candidateEvent [callPart readCall] (Some ''TOOL_USE''))] StreamDone"

text \<open>The store holds a session under this id.\<close>

definition hasSession :: "SessionManager \<Rightarrow> string \<Rightarrow> bool" where
  "hasSession m sid = (getSession m sid \<noteq> None)"





section \<open>The chunk counter of the stream adapter\<close>

lemma chunkIndices_append: "chunkIndices (xs @ ys) = chunkIndices xs @ chunkIndices ys"
  by (simp add: chunkIndices_def)

lemma upt_glue: "i \<le> j \<Longrightarrow> j \<le> k \<Longrightarrow> [i..<j] @ [j..<k] = [i..<k]"
  by (metis le_Suc_ex upt_add_eq_append)

lemma processPart_index:
  "messageIndex a \<le> messageIndex (snd (processPart now p a)) \<and>
   chunkIndices (fst (processPart now p a)) = [messageIndex a..<messageIndex (snd (processPart now p a))]"
  by (auto simp: processPart_def createThoughtChunk_def createMessageChunk_def createToolCall_def
      createNotification_def chunkIndices_def Let_def split: option.splits)

lemma processParts_index:
  "messageIndex a \<le> messageIndex (snd (processParts now ps a)) \<and>
   chunkIndices (fst (processParts now ps a)) = [messageIndex a..<messageIndex (snd (processParts now ps a))]"
proof (induction ps arbitrary: a)
  case Nil
  show ?case by (simp add: chunkIndices_def)
next
  case (Cons p ps)
  obtain n1 a1 where p1: "processPart now p a = (n1, a1)" by (cases "processPart now p a")
  obtain n2 a2 where p2: "processParts now ps a1 = (n2, a2)" by (cases "processParts now ps a1")
  from processPart_index [of a now p] p1
  have h1: "messageIndex a \<le> messageIndex a1" "chunkIndices n1 = [messageIndex a..<messageIndex a1]"
    by simp_all
  from Cons.IH [of a1] p2
  have h2: "messageIndex a1 \<le> messageIndex a2" "chunkIndices n2 = [messageIndex a1..<messageIndex a2]"
    by simp_all
  show ?case
    using h1 h2 by (simp add: p1 p2 chunkIndices_append upt_glue)
qed

lemma processCandidate_index:
  "messageIndex a \<le> messageIndex (snd (processCandidate now c a)) \<and>
   chunkIndices (fst (processCandidate now c a)) = [messageIndex a..<messageIndex (snd (processCandidate now c a))]"
proof (cases "cand_content c")
  case None
  then show ?thesis by (simp add: processCandidate_def chunkIndices_def)
next
  case (Some content)
  obtain ns a' where pp: "processParts now (parts content) a = (ns, a')"
    by (cases "processParts now (parts content) a")
  from processParts_index [of a now "parts content"] pp
  have h: "messageIndex a \<le> messageIndex a'" "chunkIndices ns = [messageIndex a..<messageIndex a']"
    by simp_all
  show ?thesis
    using h by (simp add: processCandidate_def Some pp chunkIndices_append createNotification_def
        createSessionComplete_def createSessionError_def)
      (simp add: chunkIndices_def)
qed

lemma processCandidates_index:
  "messageIndex a \<le> messageIndex (snd (processCandidates now cs a)) \<and>
   chunkIndices (fst (processCandidates now cs a)) = [messageIndex a..<messageIndex (snd (processCandidates now cs a))]"
proof (induction cs arbitrary: a)
  case Nil
  show ?case by (simp add: chunkIndices_def)
next
  case (Cons c cs)
  obtain n1 a1 where p1: "processCandidate now c a = (n1, a1)" by (cases "processCandidate now c a")
  obtain n2 a2 where p2: "processCandidates now cs a1 = (n2, a2)" by (cases "processCandidates now cs a1")
  from processCandidate_index [of a now c] p1
  have h1: "messageIndex a \<le> messageIndex a1" "chunkIndices n1 = [messageIndex a..<messageIndex a1]"
    by simp_all
  from Cons.IH [of a1] p2
  have h2: "messageIndex a1 \<le> messageIndex a2" "chunkIndices n2 = [messageIndex a1..<messageIndex a2]"
    by simp_all
  show ?case
    using h1 h2 by (simp add: p1 p2 chunkIndices_append upt_glue)
qed

lemma processEvent_index:
  "messageIndex a \<le> messageIndex (snd (processEvent now e a)) \<and>
   chunkIndices (fst (processEvent now e a)) = [messageIndex a..<messageIndex (snd (processEvent now e a))]"
  using processCandidates_index
  by (simp add: processEvent_def chunkIndices_def split: option.splits)

lemma processEvents_index:
  "messageIndex a \<le> messageIndex (snd (processEvents es a)) \<and>
   chunkIndices (fst (processEvents es a)) = [messageIndex a..<messageIndex (snd (processEvents es a))]"
proof (induction es arbitrary: a)
  case Nil
  show ?case by (simp add: chunkIndices_def)
next
  case (Cons ne es)
  obtain now e where ne: "ne = (now, e)" by (cases ne)
  obtain n1 a1 where p1: "processEvent now e a = (n1, a1)" by (cases "processEvent now e a")
  obtain n2 a2 where p2: "processEvents es a1 = (n2, a2)" by (cases "processEvents es a1")
  from processEvent_index [of a now e] p1
  have h1: "messageIndex a \<le> messageIndex a1" "chunkIndices n1 = [messageIndex a..<messageIndex a1]"
    by simp_all
  from Cons.IH [of a1] p2
  have h2: "messageIndex a1 \<le> messageIndex a2" "chunkIndices n2 = [messageIndex a1..<messageIndex a2]"
    by simp_all
  show ?case
    using h1 h2 by (simp add: ne p1 p2 chunkIndices_append upt_glue)
qed

text \<open>
  Claim C10. Within one stream adapter (one turn), message chunks and thought chunks
  take their index from the one counter \<open>messageIndex\<close>: whatever events the adapter is
  fed and however the two kinds of chunk interleave, the indices of all chunks, in
  the order of emission, are \<open>0, 1, 2, ...\<close> up to their number.
\<close>

theorem shared_chunk_counter:
  "chunkIndices (fst (processEvents es (createStreamAdapter sid tools)))
     = [0..<length (chunkIndices (fst (processEvents es (createStreamAdapter sid tools))))]"
proof -
  have "messageIndex (createStreamAdapter sid tools) = 0"
    by (simp add: createStreamAdapter_def)
  with processEvents_index [of "createStreamAdapter sid tools" es]
  have "chunkIndices (fst (processEvents es (createStreamAdapter sid tools)))
          = [0..<messageIndex (snd (processEvents es (createStreamAdapter sid tools)))]"
    by simp
  then show ?thesis by (metis length_upt minus_nat.diff_0)
qed

section \<open>Translation of parts\<close>

lemma show_nat_0: "show_nat 0 = ''0''"
  by (simp add: show_nat.simps digit_def)



lemma processPart_no_terminal: "filter terminal (fst (processPart now p a)) = []"
  by (simp add: processPart_def createThoughtChunk_def createMessageChunk_def createToolCall_def
      createNotification_def terminal_def Let_def split: option.splits)

lemma processParts_no_terminal: "filter terminal (fst (processParts now ps a)) = []"
  by (induction ps arbitrary: a) (simp_all add: split_beta processPart_no_terminal)






text \<open>
  Every thought chunk an adapter emits carries the identifier built from its own
  index, and its session id never changes.
\<close>

lemma thoughtIds_append: "thoughtIds (xs @ ys) = thoughtIds xs @ thoughtIds ys"
  by (simp add: thoughtIds_def)

















section \<open>The finish marker\<close>

text \<open>
  Claim C4, counterexample. A candidate whose part list is empty is skipped before
  its finish marker is read: a normal stop then yields no terminal update.
\<close>

theorem finish_skipped_without_parts:
  "fst (processEvent 0 (candidateEvent [] (Some ''STOP'')) (createStreamAdapter ''s'' [])) = []"
  by (simp add: processEvent_def candidateEvent_def processCandidate_def)

text \<open>
  Claim C4, as amended. For a candidate with at least one part, the updates of its
  parts come first and hold no terminal update; then the finish marker gives exactly
  one terminal update for \<open>STOP\<close>, \<open>TOOL_USE\<close>, \<open>SAFETY\<close> and \<open>MAX_TOKENS\<close> and none for
  any other or absent marker. A candidate without content or without parts yields no
  update at all.
\<close>

theorem finish_marker_mapping:
  "(cand_content c = Some content \<and> parts content \<noteq> [] \<longrightarrow>
      filter terminal (fst (processCandidate now c a)) =
        (if cand_finishReason c = Some ''STOP'' then
           [Notification (sessionId a) (SessionComplete ''end_turn'')]
         else if cand_finishReason c = Some ''TOOL_USE'' then
           [Notification (sessionId a) (SessionComplete ''tool_use'')]
         else if cand_finishReason c = Some ''SAFETY'' then
           [Notification (sessionId a) (SessionError ''SAFETY_BLOCK'' ''Content blocked by safety filters'')]
         else if cand_finishReason c = Some ''MAX_TOKENS'' then
           [Notification (sessionId a) (SessionComplete ''max_tokens'')]
         else [])
      \<and> fst (processCandidate now c a) =
          fst (processParts now (parts content) a) @ filter terminal (fst (processCandidate now c a)))
   \<and> ((cand_content c = None \<or> (\<exists>content. cand_content c = Some content \<and> parts content = [])) \<longrightarrow>
      processCandidate now c a = ([], a))"
  by (auto simp: processCandidate_def createNotification_def createSessionComplete_def
      createSessionError_def split_beta processParts_no_terminal terminal_def)

theorem finish_marker_mapping_witness:
  "filter terminal (fst (processCandidate 0
       \<lparr> cand_content = Some \<lparr> role = Model, parts = [textPart ''x''] \<rparr>, cand_finishReason = Some ''STOP'' \<rparr>
       (createStreamAdapter ''s'' [])))
     = [Notification ''s'' (SessionComplete ''end_turn'')]
   \<and> processCandidate 0 \<lparr> cand_content = None, cand_finishReason = Some ''STOP'' \<rparr>
       (createStreamAdapter ''s'' []) = ([], createStreamAdapter ''s'' [])"
  using finish_marker_mapping [of
      "\<lparr> cand_content = Some \<lparr> role = Model, parts = [textPart ''x''] \<rparr>, cand_finishReason = Some ''STOP'' \<rparr>"
      "\<lparr> role = Model, parts = [textPart ''x''] \<rparr>" 0 "createStreamAdapter ''s'' []"]
    finish_marker_mapping [of "\<lparr> cand_content = None, cand_finishReason = Some ''STOP'' \<rparr>"
      "\<lparr> role = Model, parts = [] \<rparr>" 0 "createStreamAdapter ''s'' []"]
  by (simp add: createStreamAdapter_def)

section \<open>The session store\<close>

lemma getSession_putSession:
  "getSession (putSession sid s m) sid' = (if sid' = sid then Some s else getSession m sid')"
  by (simp add: getSession_def putSession_def update_conv')

lemma aborted_putSession: "aborted (putSession sid s m) = aborted m"
  by (simp add: putSession_def)

text \<open>
  Claim C9. On an existing session \<open>addToolResult\<close> appends one user element whose only
  part is a function response named after the tool and keyed by the call id; a
  string result is stored as \<open>{output: result}\<close>, any other result unchanged.
\<close>

theorem tool_result_normalization:
  "getSession m sid = Some s \<Longrightarrow>
   getSession (addToolResult sid callId name result m) sid =
     Some (s\<lparr>ss_contents := ss_contents s @
        [\<lparr> role = User,
           parts = [\<lparr> part_text = None, part_thought = None, part_inlineData = None,
                      part_functionCall = None,
                      part_functionResponse = Some
                        \<lparr> fr_name = name,
                          fr_response = (if \<exists>str. result = JStr str
                                         then JObj [(''output'', result)] else result),
                          fr_id = Some callId \<rparr> \<rparr>] \<rparr>]\<rparr>)"
  by (cases result) (simp_all add: addToolResult_def getSession_putSession)

lemma getSession_oneSession: "getSession oneSession sid0 = Some session0"
  by (simp add: oneSession_def sid0_def session0_def createSession_def createSessionManager_def
      getSession_def orElse_def newSessionId_def show_nat_0 Let_def)

lemma getSession_oneSession_other: "getSession oneSession ''nobody'' = None"
  by (simp add: oneSession_def createSession_def createSessionManager_def
      getSession_def orElse_def newSessionId_def show_nat_0 Let_def)

lemma aborted_oneSession: "aborted oneSession = {}"
  by (simp add: oneSession_def createSession_def createSessionManager_def Let_def)

theorem tool_result_normalization_witness:
  "getContents (addToolResult sid0 ''c1'' ''read_file'' (JStr ''hello'') oneSession) sid0 =
     [\<lparr> role = User,
        parts = [\<lparr> part_text = None, part_thought = None, part_inlineData = None,
                   part_functionCall = None,
                   part_functionResponse = Some
                     \<lparr> fr_name = ''read_file'', fr_response = JObj [(''output'', JStr ''hello'')],
                       fr_id = Some ''c1'' \<rparr> \<rparr>] \<rparr>]
   \<and> getContents (addToolResult sid0 ''c1'' ''read_file'' (JObj [(''lines'', JNum 3)]) oneSession) sid0 =
     [\<lparr> role = User,
        parts = [\<lparr> part_text = None, part_thought = None, part_inlineData = None,
                   part_functionCall = None,
                   part_functionResponse = Some
                     \<lparr> fr_name = ''read_file'', fr_response = JObj [(''lines'', JNum 3)],
                       fr_id = Some ''c1'' \<rparr> \<rparr>] \<rparr>]"
  using tool_result_normalization [OF getSession_oneSession, of "''c1''" "''read_file''" "JStr ''hello''"]
    tool_result_normalization [OF getSession_oneSession, of "''c1''" "''read_file''" "JObj [(''lines'', JNum 3)]"]
  by (simp add: getContents_def session0_def)

text \<open>
  Claim C8. The cancel request is always answered with a result carrying what the
  store returned, never with an error. \<open>cancelSession\<close> on a session that does not exist
  or has no live handle returns false and changes nothing; on a session with a live
  handle it aborts that handle, clears it and returns true.
\<close>

theorem cancel_outcome:
  "handleCancel rid sid srv =
      ([Response rid (CancelResult (fst (cancelSession sid (srv_sessionManager srv))))],
       srv\<lparr>srv_sessionManager := snd (cancelSession sid (srv_sessionManager srv))\<rparr>)
   \<and> ((getSession m sid = None \<or> (\<exists>s. getSession m sid = Some s \<and> ss_abortController s = None)) \<longrightarrow>
      cancelSession sid m = (False, m))
   \<and> (getSession m sid = Some s \<and> ss_abortController s = Some h \<longrightarrow>
      fst (cancelSession sid m) = True
      \<and> aborted (snd (cancelSession sid m)) = insert h (aborted m)
      \<and> getSession (snd (cancelSession sid m)) sid = Some (s\<lparr>ss_abortController := None\<rparr>))"
  by (auto simp: cancelSession_def handleCancel_def getSession_putSession aborted_putSession split_beta)

lemma getSession_live:
  "getSession (setAbortController sid0 (Some 7) oneSession) sid0 = Some (session0\<lparr>ss_abortController := Some 7\<rparr>)"
  by (simp add: setAbortController_def getSession_oneSession getSession_putSession)

theorem cancel_outcome_witness:
  "cancelSession ''nobody'' oneSession = (False, oneSession)
   \<and> cancelSession sid0 oneSession = (False, oneSession)
   \<and> fst (cancelSession sid0 (setAbortController sid0 (Some 7) oneSession)) = True
   \<and> aborted (snd (cancelSession sid0 (setAbortController sid0 (Some 7) oneSession))) = {7}
   \<and> getSession (snd (cancelSession sid0 (setAbortController sid0 (Some 7) oneSession))) sid0 = Some session0"
proof -
  let ?srv = "createAcpServer \<lparr> opt_auth = None, opt_defaultModel = None, opt_tools = None \<rparr>"
  let ?live = "setAbortController sid0 (Some 7) oneSession"
  have absent: "cancelSession ''nobody'' oneSession = (False, oneSession)"
    using cancel_outcome [of IdNull "''nobody''" ?srv oneSession session0 0]
      getSession_oneSession_other by simp
  have idle: "cancelSession sid0 oneSession = (False, oneSession)"
    using cancel_outcome [of IdNull sid0 ?srv oneSession session0 0] getSession_oneSession
    by (simp add: session0_def)
  have live: "fst (cancelSession sid0 ?live) = True
      \<and> aborted (snd (cancelSession sid0 ?live)) = insert 7 (aborted ?live)
      \<and> getSession (snd (cancelSession sid0 ?live)) sid0
          = Some (session0\<lparr>ss_abortController := Some 7, ss_abortController := None\<rparr>)"
    using cancel_outcome [of IdNull sid0 ?srv ?live "session0\<lparr>ss_abortController := Some 7\<rparr>" 7]
      getSession_live by simp
  have "aborted ?live = {}"
    by (simp add: setAbortController_def getSession_oneSession aborted_putSession aborted_oneSession)
  with absent idle live show ?thesis by (simp add: session0_def)
qed

subsection \<open>Appending assistant text\<close>

lemma putSession_twice: "putSession sid s2 (putSession sid s1 m) = putSession sid s2 m"
  by (simp add: putSession_def)

lemma appendToTextPart_None:
  "(appendToTextPart t ps = None) = (\<forall>p\<in>set ps. \<not> isTextPart p)"
  by (induction ps) (auto simp: isTextPart_def split: option.splits)

lemma appendToTextPart_Some:
  "appendToTextPart t ps = Some ps' \<Longrightarrow>
   \<exists>pre p post old. ps = pre @ p # post \<and> (\<forall>q\<in>set pre. \<not> isTextPart q) \<and>
      part_text p = Some old \<and> part_thought p = None \<and>
      ps' = pre @ p\<lparr>part_text := Some (old @ t)\<rparr> # post"
proof (induction ps arbitrary: ps')
  case Nil
  then show ?case by simp
next
  case (Cons q qs)
  show ?case
  proof (cases "isTextPart q")
    case True
    then obtain old where old: "part_text q = Some old" "part_thought q = None"
      by (auto simp: isTextPart_def)
    with Cons.prems have "ps' = q\<lparr>part_text := Some (old @ t)\<rparr> # qs" by simp
    with old show ?thesis by (intro exI [of _ "[]"] exI [of _ q] exI [of _ qs] exI [of _ old]) simp
  next
    case False
    then have "appendToTextPart t (q # qs) = map_option ((#) q) (appendToTextPart t qs)"
      by (auto simp: isTextPart_def split: option.splits)
    with Cons.prems obtain qs' where qs': "appendToTextPart t qs = Some qs'" "ps' = q # qs'"
      by (cases "appendToTextPart t qs") auto
    from Cons.IH [OF qs'(1)] obtain pre p post old where
      d: "qs = pre @ p # post" "\<forall>x\<in>set pre. \<not> isTextPart x" "part_text p = Some old"
         "part_thought p = None" "qs' = pre @ p\<lparr>part_text := Some (old @ t)\<rparr> # post"
      by blast
    show ?thesis
      using d qs' False
      by (intro exI [of _ "q # pre"] exI [of _ p] exI [of _ post] exI [of _ old]) simp
  qed
qed

lemma appendToTextPart_twice:
  "appendToTextPart t1 ps = Some ps1 \<Longrightarrow>
   appendToTextPart t2 ps1 = appendToTextPart (t1 @ t2) ps"
  by (induction ps arbitrary: ps1) (auto split: option.splits if_splits)

lemma appendToTextPart_twice_None:
  "appendToTextPart t1 ps = None \<Longrightarrow> appendToTextPart (t1 @ t2) ps = None"
  by (simp add: appendToTextPart_None)

lemma addAssistantMessage_twice:
  "addAssistantMessage sid t2 (addAssistantMessage sid t1 m) = addAssistantMessage sid (t1 @ t2) m"
proof (cases "getSession m sid")
  case None
  then show ?thesis by (simp add: addAssistantMessage_def)
next
  case (Some s)
  show ?thesis
  proof (cases "ss_contents s \<noteq> [] \<and> role (last (ss_contents s)) = Model")
    case False
    then show ?thesis
      using Some
      by (auto simp: addAssistantMessage_def getSession_putSession putSession_twice modelText_def Let_def)
  next
    case True
    show ?thesis
    proof (cases "appendToTextPart t1 (parts (last (ss_contents s)))")
      case None
      then show ?thesis
        using Some True appendToTextPart_twice_None [OF None, of t2]
        by (simp add: addAssistantMessage_def getSession_putSession putSession_twice modelText_def Let_def)
    next
      case (Some ps1)
      moreover have "appendToTextPart (t1 @ t2) (parts (last (ss_contents s))) \<noteq> None"
        using Some appendToTextPart_None [of "t1 @ t2" "parts (last (ss_contents s))"]
          appendToTextPart_None [of t1 "parts (last (ss_contents s))"]
        by simp
      ultimately show ?thesis
        using \<open>getSession m sid = Some s\<close> True appendToTextPart_twice [OF Some, of t2]
        by (auto simp: addAssistantMessage_def getSession_putSession putSession_twice Let_def
            split: option.splits)
    qed
  qed
qed

lemma getContents_putSession: "getContents (putSession sid s m) sid = ss_contents s"
  by (simp add: getContents_def getSession_putSession)

text \<open>
  Claim C2, counterexample. After assistant text \<open>a\<close> and a tool call, the trailing
  model element holds a text part and a tool-call part, so its sub-parts are not pure
  text; appending \<open>b\<close> still extends that text part instead of opening a new element.
\<close>

theorem merge_into_mixed_element:
  "getContents (addToolCall sid0 readCall (addAssistantMessage sid0 ''a'' oneSession)) sid0
     = [\<lparr> role = Model, parts = [textPart ''a'', callPart readCall] \<rparr>]
   \<and> getContents (addAssistantMessage sid0 ''b''
        (addToolCall sid0 readCall (addAssistantMessage sid0 ''a'' oneSession))) sid0
     = [\<lparr> role = Model, parts = [textPart ''ab'', callPart readCall] \<rparr>]"
  by (simp add: addAssistantMessage_def addToolCall_def getSession_oneSession getSession_putSession
      getContents_putSession session0_def modelText_def textPart_def callPart_def Let_def)

text \<open>
  Claim C2, as amended. Two appends in a row equal one append of the concatenation;
  after an empty history or a trailing user element they leave one new model element
  with the text \<open>t1 + t2\<close>. In general \<open>addAssistantMessage\<close> extends the first plain
  text part (a part with a text and no thought field) of the trailing model element
  whenever that element has one, whatever other parts it holds, and opens a new
  model element otherwise.
\<close>

theorem assistant_text_merge:
  "addAssistantMessage sid t2 (addAssistantMessage sid t1 m) = addAssistantMessage sid (t1 @ t2) m
   \<and> (getSession m sid = Some s \<and> (ss_contents s = [] \<or> role (last (ss_contents s)) \<noteq> Model) \<longrightarrow>
        getContents (addAssistantMessage sid t2 (addAssistantMessage sid t1 m)) sid
          = ss_contents s @ [modelText (t1 @ t2)])
   \<and> (getSession m sid = Some s \<and> ss_contents s \<noteq> [] \<and> role (last (ss_contents s)) = Model
        \<and> (\<exists>p\<in>set (parts (last (ss_contents s))). isTextPart p) \<longrightarrow>
        (\<exists>pre p post old.
            parts (last (ss_contents s)) = pre @ p # post \<and> (\<forall>q\<in>set pre. \<not> isTextPart q)
            \<and> part_text p = Some old \<and> part_thought p = None
            \<and> getContents (addAssistantMessage sid t m) sid
                = butlast (ss_contents s) @
                  [(last (ss_contents s))\<lparr>parts := pre @ p\<lparr>part_text := Some (old @ t)\<rparr> # post\<rparr>]))
   \<and> (getSession m sid = Some s
        \<and> \<not> (ss_contents s \<noteq> [] \<and> role (last (ss_contents s)) = Model
              \<and> (\<exists>p\<in>set (parts (last (ss_contents s))). isTextPart p)) \<longrightarrow>
        getContents (addAssistantMessage sid t m) sid = ss_contents s @ [modelText t])"
proof (intro conjI impI)
  show "addAssistantMessage sid t2 (addAssistantMessage sid t1 m) = addAssistantMessage sid (t1 @ t2) m"
    by (rule addAssistantMessage_twice)
next
  assume "getSession m sid = Some s \<and> (ss_contents s = [] \<or> role (last (ss_contents s)) \<noteq> Model)"
  then show "getContents (addAssistantMessage sid t2 (addAssistantMessage sid t1 m)) sid
          = ss_contents s @ [modelText (t1 @ t2)]"
    unfolding addAssistantMessage_twice
    by (auto simp: addAssistantMessage_def getContents_putSession Let_def)
next
  assume h: "getSession m sid = Some s \<and> ss_contents s \<noteq> [] \<and> role (last (ss_contents s)) = Model
        \<and> (\<exists>p\<in>set (parts (last (ss_contents s))). isTextPart p)"
  then have "appendToTextPart t (parts (last (ss_contents s))) \<noteq> None"
    by (simp add: appendToTextPart_None)
  then obtain ps' where ps': "appendToTextPart t (parts (last (ss_contents s))) = Some ps'"
    by auto
  from appendToTextPart_Some [OF ps'] obtain pre p post old where
    d: "parts (last (ss_contents s)) = pre @ p # post" "\<forall>q\<in>set pre. \<not> isTextPart q"
       "part_text p = Some old" "part_thought p = None"
       "ps' = pre @ p\<lparr>part_text := Some (old @ t)\<rparr> # post"
    by blast
  have "getContents (addAssistantMessage sid t m) sid
          = butlast (ss_contents s) @ [(last (ss_contents s))\<lparr>parts := ps'\<rparr>]"
    using h ps' by (simp add: addAssistantMessage_def getContents_putSession Let_def)
  with d show "\<exists>pre p post old.
            parts (last (ss_contents s)) = pre @ p # post \<and> (\<forall>q\<in>set pre. \<not> isTextPart q)
            \<and> part_text p = Some old \<and> part_thought p = None
            \<and> getContents (addAssistantMessage sid t m) sid
                = butlast (ss_contents s) @
                  [(last (ss_contents s))\<lparr>parts := pre @ p\<lparr>part_text := Some (old @ t)\<rparr> # post\<rparr>]"
    by blast
next
  assume h: "getSession m sid = Some s
        \<and> \<not> (ss_contents s \<noteq> [] \<and> role (last (ss_contents s)) = Model
              \<and> (\<exists>p\<in>set (parts (last (ss_contents s))). isTextPart p))"
  show "getContents (addAssistantMessage sid t m) sid = ss_contents s @ [modelText t]"
  proof (cases "ss_contents s \<noteq> [] \<and> role (last (ss_contents s)) = Model")
    case False
    with h show ?thesis
      by (auto simp: addAssistantMessage_def getContents_putSession Let_def)
  next
    case True
    with h have "appendToTextPart t (parts (last (ss_contents s))) = None"
      by (simp add: appendToTextPart_None)
    with h True show ?thesis
      by (simp add: addAssistantMessage_def getContents_putSession Let_def)
  qed
qed

theorem assistant_text_merge_witness:
  "addAssistantMessage sid0 ''b'' (addAssistantMessage sid0 ''a'' oneSession)
     = addAssistantMessage sid0 ''ab'' oneSession
   \<and> getContents (addAssistantMessage sid0 ''b'' (addAssistantMessage sid0 ''a'' oneSession)) sid0
     = [modelText ''ab'']
   \<and> getContents (addAssistantMessage sid0 ''a'' oneSession) sid0 = [modelText ''a'']"
proof -
  note t = assistant_text_merge [of sid0 "''b''" "''a''" oneSession session0 "''a''"]
  have c: "ss_contents session0 = []"
    by (simp add: session0_def)
  from t have one: "addAssistantMessage sid0 ''b'' (addAssistantMessage sid0 ''a'' oneSession)
     = addAssistantMessage sid0 (''a'' @ ''b'') oneSession"
    by blast
  from t getSession_oneSession c
  have two: "getContents (addAssistantMessage sid0 ''b'' (addAssistantMessage sid0 ''a'' oneSession)) sid0
     = ss_contents session0 @ [modelText (''a'' @ ''b'')]"
    by blast
  from t getSession_oneSession c
  have three: "getContents (addAssistantMessage sid0 ''a'' oneSession) sid0
     = ss_contents session0 @ [modelText ''a'']"
    by blast
  from one have one': "addAssistantMessage sid0 ''b'' (addAssistantMessage sid0 ''a'' oneSession)
     = addAssistantMessage sid0 ''ab'' oneSession"
    by simp
  from two c have two': "getContents (addAssistantMessage sid0 ''b'' (addAssistantMessage sid0 ''a'' oneSession)) sid0
     = [modelText ''ab'']"
    by simp
  from three c have three': "getContents (addAssistantMessage sid0 ''a'' oneSession) sid0 = [modelText ''a'']"
    by simp
  from one' two' three' show ?thesis by blast
qed

section \<open>The protocol front-end and the turn\<close>

lemma initializedServer_eq:
  "initializedServer = (createAcpServer options0)\<lparr>srv_antigravityClient := Some auth0, srv_initialized := True\<rparr>"
  by (simp add: initializedServer_def onLine_def handleRequest_def handleInitialize_def
      createAcpServer_def options0_def)

lemma readyServer_step: "readyServer = snd (handleNewSession env0 (IdNum 2) None initializedServer)"
  by (simp add: readyServer_def onLine_def handleRequest_def initializedServer_eq createAcpServer_def)

lemma readyServer_eq:
  "readyServer =
     \<lparr> srv_options = options0, srv_sessionManager = oneSession, srv_tools = ACP_TOOLS,
       srv_antigravityClient = Some auth0, srv_initialized = True, srv_controllers = 0,
       srv_exited = False \<rparr>"
  by (simp add: readyServer_step initializedServer_eq handleNewSession_def
      createAcpServer_def options0_def oneSession_def env0_def split_beta)

lemma newSessionId_0: "newSessionId (env_now env0) (env_random env0) = sid0"
  by (simp add: newSessionId_def env0_def sid0_def show_nat_0)

subsection \<open>The initialized gate\<close>

text \<open>
  Claim C6, counterexample. On a server that has handled no \<open>initialize\<close>, a \<open>cancel\<close>
  request is answered with a result, not with error -32002.
\<close>

theorem cancel_before_initialize:
  "\<not> srv_initialized (createAcpServer options0)
   \<and> handleRequest env0 (IdNum 1) (Cancel ''nobody'') (createAcpServer options0)
       = Inr ([Response (IdNum 1) (CancelResult False)], createAcpServer options0)"
  by (simp add: handleRequest_def handleCancel_def cancelSession_def createAcpServer_def
      createSessionManager_def getSession_def options0_def)

text \<open>
  Claim C6, as amended. While the server is not initialized, \<open>newSession\<close>, \<open>prompt\<close>
  and \<open>toolResult\<close> are rejected with error -32002 and change nothing. \<open>cancel\<close> and
  \<open>shutdown\<close> are not gated: they are answered with their result in every state, and
  leave the flag as it is. \<open>initialize\<close> is never gated: when it returns it has
  answered with its result and the server is initialized, and it fails only when no
  credentials were given and loading them throws.
\<close>

theorem initialize_gate:
  "(\<not> srv_initialized s \<longrightarrow>
      handleRequest env rid (NewSession config) s = Inr ([ErrorResponse rid (- 32002) ''Server not initialized'' None], s)
      \<and> handleRequest env rid (Prompt sid messages) s = Inr ([ErrorResponse rid (- 32002) ''Server not initialized'' None], s)
      \<and> handleRequest env rid (ToolResult sid callId toolName result) s
          = Inr ([ErrorResponse rid (- 32002) ''Server not initialized'' None], s))
   \<and> (\<exists>cancelled s'. handleRequest env rid (Cancel sid) s = Inr ([Response rid (CancelResult cancelled)], s')
         \<and> srv_initialized s' = srv_initialized s)
   \<and> (\<exists>s'. handleRequest env rid Shutdown s = Inr ([Response rid ShutdownResult], s')
         \<and> srv_initialized s' = srv_initialized s)
   \<and> (handleRequest env rid Initialize s = Inr r \<longrightarrow>
         fst r = [Response rid InitializeResult] \<and> srv_initialized (snd r))
   \<and> ((\<exists>err. handleRequest env rid Initialize s = Inl err)
         = (opt_auth (srv_options s) = None \<and> (\<exists>err. env_loadAuth env = Inl err)))"
  by (auto simp: handleRequest_def handleNewSession_def handlePrompt_def handleToolResult_def
      handleCancel_def handleShutdown_def sendError_def split_beta handleInitialize_def
      split: option.splits sum.splits)

theorem initialize_gate_witness:
  "\<not> srv_initialized (createAcpServer options0)
   \<and> handleRequest env0 (IdNum 1) (NewSession None) (createAcpServer options0)
       = Inr ([ErrorResponse (IdNum 1) (- 32002) ''Server not initialized'' None], createAcpServer options0)
   \<and> handleRequest env0 (IdNum 1) (Prompt sid0 [userMessage ''hi'']) (createAcpServer options0)
       = Inr ([ErrorResponse (IdNum 1) (- 32002) ''Server not initialized'' None], createAcpServer options0)
   \<and> handleRequest env0 (IdNum 1) (ToolResult sid0 ''c1'' ''read_file'' (JStr ''hello'')) (createAcpServer options0)
       = Inr ([ErrorResponse (IdNum 1) (- 32002) ''Server not initialized'' None], createAcpServer options0)
   \<and> handleRequest env0 (IdNum 1) Initialize (createAcpServer options0)
       = Inr ([Response (IdNum 1) InitializeResult],
              (createAcpServer options0)\<lparr>srv_antigravityClient := Some auth0, srv_initialized := True\<rparr>)"
proof -
  have n: "\<not> srv_initialized (createAcpServer options0)"
    by (simp add: createAcpServer_def)
  have i: "handleRequest env0 (IdNum 1) Initialize (createAcpServer options0)
       = Inr ([Response (IdNum 1) InitializeResult],
              (createAcpServer options0)\<lparr>srv_antigravityClient := Some auth0, srv_initialized := True\<rparr>)"
    by (simp add: handleRequest_def handleInitialize_def createAcpServer_def options0_def)
  from initialize_gate [of "createAcpServer options0" env0 "IdNum 1" None sid0 "[userMessage ''hi'']"
      "''c1''" "''read_file''" "JStr ''hello''"] n i
  show ?thesis by blast
qed

subsection \<open>The cancellation handle after a turn\<close>

lemma hasSession_putSession:
  "hasSession (putSession sid s m) sid' = (sid' = sid \<or> hasSession m sid')"
  by (simp add: hasSession_def getSession_putSession)

lemma hasSession_addUserMessage: "hasSession (addUserMessage sid t m) sid' = hasSession m sid'"
  by (auto simp: addUserMessage_def hasSession_putSession split: option.splits)
    (simp_all add: hasSession_def)

lemma hasSession_addAssistantMessage: "hasSession (addAssistantMessage sid t m) sid' = hasSession m sid'"
  by (auto simp: addAssistantMessage_def hasSession_putSession Let_def split: option.splits)
    (simp_all add: hasSession_def)

lemma hasSession_addToolCall: "hasSession (addToolCall sid fc m) sid' = hasSession m sid'"
  by (auto simp: addToolCall_def hasSession_putSession Let_def split: option.splits)
    (simp_all add: hasSession_def)

lemma hasSession_addToolResult: "hasSession (addToolResult sid c n r m) sid' = hasSession m sid'"
  by (auto simp: addToolResult_def hasSession_putSession Let_def split: option.splits)
    (simp_all add: hasSession_def)

lemma hasSession_setAbortController: "hasSession (setAbortController sid c m) sid' = hasSession m sid'"
  by (auto simp: setAbortController_def hasSession_putSession split: option.splits)
    (simp_all add: hasSession_def)

lemma hasSession_recordUpdate:
  "hasSession (snd (recordUpdate sid a n pm)) sid' = hasSession (snd pm) sid'"
  by (cases pm; cases "update_of n")
    (simp_all add: recordUpdate_def hasSession_addToolCall hasSession_addAssistantMessage Let_def)

lemma hasSession_recordUpdates:
  "hasSession (snd (recordUpdates sid a ns pm)) sid' = hasSession (snd pm) sid'"
  by (induction ns arbitrary: pm) (simp_all add: hasSession_recordUpdate)

lemma hasSession_drainStream:
  "hasSession (snd (snd (snd (drainStream sid es a pm)))) sid' = hasSession (snd pm) sid'"
proof (induction es arbitrary: a pm)
  case Nil
  show ?case by simp
next
  case (Cons e es)
  obtain now ev where e: "e = (now, ev)" by (cases e)
  show ?case
    by (simp add: e split_beta Let_def Cons.IH hasSession_recordUpdates)
qed

lemma clear_setAbortController:
  "hasSession m sid \<Longrightarrow>
   \<exists>sess. getSession (setAbortController sid None m) sid = Some sess \<and> ss_abortController sess = None"
  by (auto simp: hasSession_def setAbortController_def getSession_putSession)

lemma runTurn_clears:
  assumes "hasSession (srv_sessionManager s) sid"
  shows "\<exists>sess. getSession (srv_sessionManager (snd (runTurn env rid sid session s))) sid = Some sess
           \<and> ss_abortController sess = None"
proof -
  let ?m1 = "setAbortController sid (Some (srv_controllers s)) (srv_sessionManager s)"
  let ?stream = "env_backend env
            \<lparr> sg_model = ss_model session,
              sg_contents = getContents ?m1 sid,
              sg_systemInstruction =
                (case ss_systemInstruction session of
                   Some t \<Rightarrow> if t \<noteq> [] then Some t else None
                 | None \<Rightarrow> None),
              sg_tools = (if length (acpToolsToFunctionDeclarations
                  (if length (ss_tools session) > 0 then ss_tools session else srv_tools s)) > 0
                then Some (acpToolsToFunctionDeclarations
                  (if length (ss_tools session) > 0 then ss_tools session else srv_tools s)) else None),
              sg_signal = srv_controllers s \<rparr>"
  let ?m2 = "snd (snd (snd (drainStream sid (sr_events ?stream) (createStreamAdapter sid []) ([], ?m1))))"
  have "hasSession ?m1 sid"
    using assms by (simp add: hasSession_setAbortController)
  then have "hasSession ?m2 sid"
    by (simp add: hasSession_drainStream)
  from clear_setAbortController [OF this]
  have "\<exists>sess. getSession (setAbortController sid None ?m2) sid = Some sess \<and> ss_abortController sess = None" .
  moreover have "srv_sessionManager (snd (runTurn env rid sid session s)) = setAbortController sid None ?m2"
    by (simp add: runTurn_def Let_def split_beta)
  ultimately show ?thesis by simp
qed

text \<open>
  Claim C7. On an initialized server with a client, a \<open>prompt\<close> or \<open>toolResult\<close> turn on
  an existing session ends with the session still in the store and its cancellation
  handle cleared, whatever the backend does: the stream may deliver any events and
  end normally, with \<open>AbortError\<close> or with any other failure.
\<close>

theorem handle_cleared_after_turn:
  assumes "srv_initialized s" and "srv_antigravityClient s \<noteq> None"
    and "getSession (srv_sessionManager s) sid \<noteq> None"
  shows "(\<exists>sess. getSession (srv_sessionManager (snd (handlePrompt env rid sid messages s))) sid = Some sess
            \<and> ss_abortController sess = None)
       \<and> (\<exists>sess. getSession (srv_sessionManager (snd (handleToolResult env rid sid callId toolName result s))) sid = Some sess
            \<and> ss_abortController sess = None)"
proof
  obtain session where session: "getSession (srv_sessionManager s) sid = Some session"
    using assms(3) by auto
  have has: "hasSession (srv_sessionManager s) sid"
    using assms(3) by (simp add: hasSession_def)
  let ?m = "if userTextOf (env_stringify env) messages \<noteq> []
            then addUserMessage sid (userTextOf (env_stringify env) messages) (srv_sessionManager s)
            else srv_sessionManager s"
  have "hasSession ?m sid"
    using has by (simp add: hasSession_addUserMessage)
  then have "hasSession (srv_sessionManager (s\<lparr>srv_sessionManager := ?m\<rparr>)) sid"
    by simp
  from runTurn_clears [OF this, of env rid session]
  show "\<exists>sess. getSession (srv_sessionManager (snd (handlePrompt env rid sid messages s))) sid = Some sess
            \<and> ss_abortController sess = None"
    using assms(1,2) session by (auto simp: handlePrompt_def Let_def)
  let ?m' = "addToolResult sid callId toolName result (srv_sessionManager s)"
  have "hasSession (srv_sessionManager (s\<lparr>srv_sessionManager := ?m'\<rparr>)) sid"
    using has by (simp add: hasSession_addToolResult)
  from runTurn_clears [OF this, of env rid session]
  show "\<exists>sess. getSession (srv_sessionManager (snd (handleToolResult env rid sid callId toolName result s))) sid = Some sess
            \<and> ss_abortController sess = None"
    using assms(1,2) session by (auto simp: handleToolResult_def)
qed

theorem handle_cleared_after_turn_witness:
  "srv_initialized readyServer \<and> srv_antigravityClient readyServer \<noteq> None
   \<and> getSession (srv_sessionManager readyServer) sid0 \<noteq> None
   \<and> (\<exists>sess. getSession (srv_sessionManager (snd (handlePrompt
          (env0\<lparr>env_backend := streamOf [] AbortError\<rparr>) (IdNum 3) sid0 [userMessage ''hi''] readyServer))) sid0
          = Some sess \<and> ss_abortController sess = None)
   \<and> (\<exists>sess. getSession (srv_sessionManager (snd (handleToolResult
          (env0\<lparr>env_backend := streamOf [] (StreamFailure ''API error 500: '')\<rparr>) (IdNum 3) sid0
          ''c1'' ''read_file'' (JStr ''hello'') readyServer))) sid0
          = Some sess \<and> ss_abortController sess = None)"
proof -
  have h1: "srv_initialized readyServer" by (simp add: readyServer_eq)
  have h2: "srv_antigravityClient readyServer \<noteq> None" by (simp add: readyServer_eq)
  have h3: "getSession (srv_sessionManager readyServer) sid0 \<noteq> None"
    by (simp add: readyServer_eq getSession_oneSession)
  from handle_cleared_after_turn [OF h1 h2 h3, where env = "env0\<lparr>env_backend := streamOf [] AbortError\<rparr>"
      and rid = "IdNum 3" and messages = "[userMessage ''hi'']"]
  have p: "\<exists>sess. getSession (srv_sessionManager (snd (handlePrompt
          (env0\<lparr>env_backend := streamOf [] AbortError\<rparr>) (IdNum 3) sid0 [userMessage ''hi''] readyServer))) sid0
          = Some sess \<and> ss_abortController sess = None"
    by blast
  from handle_cleared_after_turn [OF h1 h2 h3,
      where env = "env0\<lparr>env_backend := streamOf [] (StreamFailure ''API error 500: '')\<rparr>"
      and rid = "IdNum 3" and callId = "''c1''" and toolName = "''read_file''" and result = "JStr ''hello''"]
  have t: "\<exists>sess. getSession (srv_sessionManager (snd (handleToolResult
          (env0\<lparr>env_backend := streamOf [] (StreamFailure ''API error 500: '')\<rparr>) (IdNum 3) sid0
          ''c1'' ''read_file'' (JStr ''hello'') readyServer))) sid0
          = Some sess \<and> ss_abortController sess = None"
    by blast
  from h1 h2 h3 p t show ?thesis by blast
qed

subsection \<open>One turn end to end\<close>

lemma getSession_createSession:
  "getSession (snd (createSession now rnd config m)) (newSessionId now rnd)
     = Some (fst (createSession now rnd config m))"
  by (simp add: createSession_def getSession_def Let_def update_conv')

lemma contents_createSession: "ss_contents (fst (createSession now rnd config m)) = []"
  by (simp add: createSession_def Let_def)

lemma id_createSession: "ss_id (fst (createSession now rnd config m)) = newSessionId now rnd"
  by (simp add: createSession_def Let_def)

lemma userTextOf_hi: "userTextOf f [userMessage ''hi''] = ''hi''"
  by (simp add: userTextOf_def userMessage_def)

lemma hello_event:
  "processEvent now (candidateEvent [textPart ''hello''] (Some ''STOP'')) (createStreamAdapter sid [])
     = ([Notification sid (AgentMessageChunk (''msg_'' @ sid @ ''_0'') 0 ''hello''),
         Notification sid (SessionComplete ''end_turn'')],
        (createStreamAdapter sid [])\<lparr>accumulatedText := ''hello'', messageIndex := 1\<rparr>)"
  by (simp add: processEvent_def candidateEvent_def textPart_def processCandidate_def processPart_def
      createMessageChunk_def createNotification_def createSessionComplete_def createStreamAdapter_def
      show_nat_0 Let_def)

text \<open>
  Claim C1. On an initialized server with a client, \<open>newSession\<close> (with any
  configuration, in particular one without a tool catalogue) returns the new id;
  a \<open>prompt\<close> on it with the user text \<open>hi\<close>, when the backend's stream is one event
  with the one text part \<open>hello\<close> and the finish marker \<open>STOP\<close>, writes exactly the
  message chunk \<open>hello\<close> (index 0), then \<open>session_complete\<close> with reason \<open>end_turn\<close>,
  then the response, whose \<open>pending\<close> field is absent; afterwards the history is the
  user element \<open>hi\<close> followed by the model element \<open>hello\<close>.
\<close>

theorem end_to_end_hello:
  assumes "srv_initialized s" and "srv_antigravityClient s \<noteq> None"
  shows "fst (handleNewSession env rid1 config s)
           = [Response rid1 (NewSessionResult (newSessionId (env_now env) (env_random env)))]
       \<and> fst (handlePrompt (env\<lparr>env_backend := helloStream now\<rparr>) rid2
              (newSessionId (env_now env) (env_random env)) [userMessage ''hi'']
              (snd (handleNewSession env rid1 config s)))
           = [Notify (Notification (newSessionId (env_now env) (env_random env))
                (AgentMessageChunk (''msg_'' @ newSessionId (env_now env) (env_random env) @ ''_0'')
                   0 ''hello'')),
              Notify (Notification (newSessionId (env_now env) (env_random env))
                (SessionComplete ''end_turn'')),
              Response rid2 (PromptResult None)]
       \<and> getContents (srv_sessionManager (snd (handlePrompt (env\<lparr>env_backend := helloStream now\<rparr>) rid2
              (newSessionId (env_now env) (env_random env)) [userMessage ''hi'']
              (snd (handleNewSession env rid1 config s)))))
            (newSessionId (env_now env) (env_random env))
           = [\<lparr> role = User, parts = [textPart ''hi''] \<rparr>, \<lparr> role = Model, parts = [textPart ''hello''] \<rparr>]"
proof -
  let ?sid = "newSessionId (env_now env) (env_random env)"
  let ?cs = "createSession (env_now env) (env_random env) config (srv_sessionManager s)"
  let ?s1 = "snd (handleNewSession env rid1 config s)"
  have new: "handleNewSession env rid1 config s
      = ([Response rid1 (NewSessionResult ?sid)], s\<lparr>srv_sessionManager := snd ?cs\<rparr>)"
    using assms by (auto simp: handleNewSession_def split_beta id_createSession)
  have s1: "getSession (srv_sessionManager ?s1) ?sid = Some (fst ?cs)"
    by (simp add: new getSession_createSession)
  have init: "srv_initialized ?s1" "srv_antigravityClient ?s1 \<noteq> None"
    using assms by (simp_all add: new)
  let ?m1 = "addUserMessage ?sid ''hi'' (srv_sessionManager ?s1)"
  have run: "handlePrompt (env\<lparr>env_backend := helloStream now\<rparr>) rid2 ?sid [userMessage ''hi''] ?s1
      = runTurn (env\<lparr>env_backend := helloStream now\<rparr>) rid2 ?sid (fst ?cs) (?s1\<lparr>srv_sessionManager := ?m1\<rparr>)"
    using init s1 by (auto simp: handlePrompt_def userTextOf_hi Let_def)
  have m1: "getSession ?m1 ?sid = Some ((fst ?cs)\<lparr>ss_contents := [\<lparr> role = User, parts = [textPart ''hi''] \<rparr>]\<rparr>)"
    using s1 by (simp add: addUserMessage_def getSession_putSession contents_createSession textPart_def)
  show ?thesis
    apply (simp only: run)
    apply (simp add: new)
    apply (simp add: runTurn_def helloStream_def streamOf_def Let_def hello_event split_beta
        recordUpdate_def getAccumulatedText_def)
    using m1 s1
    apply (simp add: new setAbortController_def getSession_putSession addAssistantMessage_def
        getContents_def modelText_def textPart_def Let_def)
    done
qed

theorem end_to_end_hello_witness:
  "srv_initialized initializedServer \<and> srv_antigravityClient initializedServer \<noteq> None
   \<and> fst (handleNewSession env0 (IdNum 2) None initializedServer) = [Response (IdNum 2) (NewSessionResult sid0)]
   \<and> fst (handlePrompt (env0\<lparr>env_backend := helloStream 5\<rparr>) (IdNum 3) sid0 [userMessage ''hi''] readyServer)
       = [Notify (Notification sid0 (AgentMessageChunk (''msg_'' @ sid0 @ ''_0'') 0 ''hello'')),
          Notify (Notification sid0 (SessionComplete ''end_turn'')),
          Response (IdNum 3) (PromptResult None)]
   \<and> getContents (srv_sessionManager (snd (handlePrompt (env0\<lparr>env_backend := helloStream 5\<rparr>) (IdNum 3) sid0
          [userMessage ''hi''] readyServer))) sid0
       = [\<lparr> role = User, parts = [textPart ''hi''] \<rparr>, \<lparr> role = Model, parts = [textPart ''hello''] \<rparr>]"
proof -
  have h1: "srv_initialized initializedServer"
    by (simp add: initializedServer_eq)
  have h2: "srv_antigravityClient initializedServer \<noteq> None"
    by (simp add: initializedServer_eq)
  from end_to_end_hello [OF h1 h2, where env = env0 and ?rid1.0 = "IdNum 2" and config = None
      and now = 5 and ?rid2.0 = "IdNum 3"]
  have "fst (handleNewSession env0 (IdNum 2) None initializedServer) = [Response (IdNum 2) (NewSessionResult sid0)]
   \<and> fst (handlePrompt (env0\<lparr>env_backend := helloStream 5\<rparr>) (IdNum 3) sid0 [userMessage ''hi''] readyServer)
       = [Notify (Notification sid0 (AgentMessageChunk (''msg_'' @ sid0 @ ''_0'') 0 ''hello'')),
          Notify (Notification sid0 (SessionComplete ''end_turn'')),
          Response (IdNum 3) (PromptResult None)]
   \<and> getContents (srv_sessionManager (snd (handlePrompt (env0\<lparr>env_backend := helloStream 5\<rparr>) (IdNum 3) sid0
          [userMessage ''hi''] readyServer))) sid0
       = [\<lparr> role = User, parts = [textPart ''hi''] \<rparr>, \<lparr> role = Model, parts = [textPart ''hello''] \<rparr>]"
    by (simp only: newSessionId_0 readyServer_step [symmetric])
  with h1 h2 show ?thesis by blast
qed

subsection \<open>The tool definition of a tool call\<close>

text \<open>
  Claim C5, evaluated. The handlers create the stream adapter without a catalogue
  (\<open>createStreamAdapter(params.sessionId)\<close>), so no name resolves: on a session whose
  effective catalogue is the default one, a call of \<open>read_file\<close> is reported with the
  synthesized definition (empty description, empty schema), although the catalogue
  holds a definition of \<open>read_file\<close>.
\<close>

theorem tool_definition_not_resolved:
  "fst (handlePrompt (env0\<lparr>env_backend := toolStream 5\<rparr>) (IdNum 3) sid0 [userMessage ''read a.txt''] readyServer)
     = [Notify (Notification sid0
          (ToolCall ''c1''
             \<lparr> tool_name = ''read_file'', tool_description = [], tool_inputSchema = emptySchema \<rparr>
             (JObj [(''path'', JStr ''a.txt'')]))),
        Notify (Notification sid0 (SessionComplete ''tool_use'')),
        Response (IdNum 3) (PromptResult (Some [(''c1'', ''read_file'')]))]
   \<and> map tool_description
         (filter (\<lambda>t. tool_name t = ''read_file'')
            (if length (ss_tools session0) > 0 then ss_tools session0 else srv_tools readyServer))
       = [''Read the contents of a file at the specified path'']"
proof
  have tc: "processEvent 5 (candidateEvent [callPart readCall] (Some ''TOOL_USE'')) (createStreamAdapter sid0 [])
     = ([Notification sid0
          (ToolCall ''c1''
             \<lparr> tool_name = ''read_file'', tool_description = [], tool_inputSchema = emptySchema \<rparr>
             (JObj [(''path'', JStr ''a.txt'')])),
         Notification sid0 (SessionComplete ''tool_use'')],
        (createStreamAdapter sid0 [])\<lparr>currentToolCallId := Some ''c1''\<rparr>)"
    by (simp add: processEvent_def candidateEvent_def callPart_def readCall_def processCandidate_def
        processPart_def createToolCall_def createNotification_def createSessionComplete_def
        createStreamAdapter_def Let_def)
  have ut: "userTextOf (env_stringify env0) [userMessage ''read a.txt''] = ''read a.txt''"
    by (simp add: userTextOf_def userMessage_def)
  show "fst (handlePrompt (env0\<lparr>env_backend := toolStream 5\<rparr>) (IdNum 3) sid0 [userMessage ''read a.txt''] readyServer)
     = [Notify (Notification sid0
          (ToolCall ''c1''
             \<lparr> tool_name = ''read_file'', tool_description = [], tool_inputSchema = emptySchema \<rparr>
             (JObj [(''path'', JStr ''a.txt'')]))),
        Notify (Notification sid0 (SessionComplete ''tool_use'')),
        Response (IdNum 3) (PromptResult (Some [(''c1'', ''read_file'')]))]"
    by (simp add: handlePrompt_def readyServer_eq getSession_oneSession ut runTurn_def toolStream_def
        streamOf_def tc Let_def split_beta recordUpdate_def)
  show "map tool_description
         (filter (\<lambda>t. tool_name t = ''read_file'')
            (if length (ss_tools session0) > 0 then ss_tools session0 else srv_tools readyServer))
       = [''Read the contents of a file at the specified path'']"
    by (simp add: session0_def readyServer_eq ACP_TOOLS_def)
qed

theorem tool_definition_not_resolved_witness:
  "map_sum id fst (handleRequest (env0\<lparr>env_backend := toolStream 5\<rparr>) (IdNum 3)
       (Prompt sid0 [userMessage ''read a.txt'']) readyServer)
     = Inr [Notify (Notification sid0
          (ToolCall ''c1''
             \<lparr> tool_name = ''read_file'', tool_description = [], tool_inputSchema = emptySchema \<rparr>
             (JObj [(''path'', JStr ''a.txt'')]))),
        Notify (Notification sid0 (SessionComplete ''tool_use'')),
        Response (IdNum 3) (PromptResult (Some [(''c1'', ''read_file'')]))]
   \<and> map tool_description (filter (\<lambda>t. tool_name t = ''read_file'') ACP_TOOLS)
       = [''Read the contents of a file at the specified path'']"
  using tool_definition_not_resolved
  by (simp add: handleRequest_def session0_def readyServer_eq)

end
